theory Spec2Isabelle
  imports Complex_Main "HOL-Library.Word"
begin

section \<open>JavaScript values\<close>

text \<open>
  A JavaScript string is a sequence of 16-bit code units; \<open>js\<close> writes an ASCII
  literal of the source as such a sequence.
\<close>

type_synonym jsstring = "16 word list"

definition js :: "string \<Rightarrow> jsstring" where
  "js s = map of_char s"

text \<open>
  A JavaScript Number is \<open>NaN\<close>, an infinity or a finite double. Every finite double is
  a rational, and the operations the program applies to numbers (\<open><\<close>, \<open>>\<close>,
  \<open>Number.isInteger\<close>) read a double as that rational, so a finite number is carried
  as its rational value; the two zeros are not told apart (no operation here does).
\<close>

datatype number = NaN | PosInf | NegInf | Fin rat

text \<open>The relational operator \<open>a < b\<close> on numbers: false as soon as one side is \<open>NaN\<close>.\<close>

fun num_lt :: "number \<Rightarrow> number \<Rightarrow> bool" where
  "num_lt NaN y = False"
| "num_lt x NaN = False"
| "num_lt (Fin a) (Fin b) = (a < b)"
| "num_lt (Fin a) PosInf = True"
| "num_lt NegInf (Fin b) = True"
| "num_lt NegInf PosInf = True"
| "num_lt x y = False"

definition isNaN :: "number \<Rightarrow> bool" where
  "isNaN x = (x = NaN)"

text \<open>\<open>Number.isInteger\<close>: a finite number without fractional part.\<close>

fun isInteger :: "number \<Rightarrow> bool" where
  "isInteger (Fin q) = (of_int \<lfloor>q\<rfloor> = q)"
| "isInteger x = False"

definition MAX_SAFE_INTEGER :: number where
  "MAX_SAFE_INTEGER = Fin 9007199254740991"

text \<open>Thrown values: \<open>new Error(message)\<close>, and the \<open>ReferenceError\<close> the engine throws.\<close>

datatype jserror = Error (message: jsstring) | ReferenceError (message: jsstring)

subsection \<open>Whitespace and \<open>String.prototype.trim\<close>\<close>

text \<open>
  The code units ECMAScript removes when trimming: its WhiteSpace (TAB, VT, FF, SP, NBSP,
  ZWNBSP and the Unicode space separators) and LineTerminator (LF, CR, LS, PS) productions.
\<close>

definition isWhiteSpace :: "16 word \<Rightarrow> bool" where
  "isWhiteSpace c \<longleftrightarrow>
     c = 0x0009 \<or> c = 0x000A \<or> c = 0x000B \<or> c = 0x000C \<or> c = 0x000D \<or> c = 0x0020 \<or>
     c = 0x00A0 \<or> c = 0x1680 \<or> (0x2000 \<le> c \<and> c \<le> 0x200A) \<or> c = 0x2028 \<or>
     c = 0x2029 \<or> c = 0x202F \<or> c = 0x205F \<or> c = 0x3000 \<or> c = 0xFEFF"

definition trim :: "jsstring \<Rightarrow> jsstring" where
  "trim s = rev (dropWhile isWhiteSpace (rev (dropWhile isWhiteSpace s)))"

definition startsWith :: "jsstring \<Rightarrow> jsstring \<Rightarrow> bool" where
  "startsWith s p = (take (length p) s = p)"

subsection \<open>\<open>parseInt\<close> with no radix argument\<close>

text \<open>
  \<open>parseInt(string)\<close> skips leading whitespace, reads an optional sign, switches to
  radix 16 after a \<open>0x\<close>/\<open>0X\<close> prefix and to radix 10 otherwise, and takes the longest
  run of digits of that radix: whatever follows is ignored. No digit at all gives
  \<open>NaN\<close>. The integer read is then converted to a Number, that is rounded to the
  nearest double, ties to even (\<open>toNumber\<close>); ECMAScript lets an engine approximate a
  decimal integer of more than 20 significant digits, the model rounds it exactly.
\<close>

definition digitValue :: "16 word \<Rightarrow> nat option" where
  "digitValue c =
     (if 0x30 \<le> c \<and> c \<le> 0x39 then Some (unat c - 0x30)
      else if 0x61 \<le> c \<and> c \<le> 0x7A then Some (unat c - 0x61 + 10)
      else if 0x41 \<le> c \<and> c \<le> 0x5A then Some (unat c - 0x41 + 10)
      else None)"

definition radixDigit :: "nat \<Rightarrow> 16 word \<Rightarrow> bool" where
  "radixDigit R c = (case digitValue c of Some d \<Rightarrow> d < R | None \<Rightarrow> False)"

definition mathInt :: "nat \<Rightarrow> jsstring \<Rightarrow> nat" where
  "mathInt R Z =
     foldl (\<lambda>acc c. acc * R + (case digitValue c of Some d \<Rightarrow> d | None \<Rightarrow> 0)) 0 Z"

fun bitLength :: "nat \<Rightarrow> nat" where
  "bitLength n = (if n = 0 then 0 else Suc (bitLength (n div 2)))"

declare bitLength.simps [simp del]

definition toNumber :: "int \<Rightarrow> number" where
  "toNumber i =
     (let a = nat \<bar>i\<bar> in
      if a < 2 ^ 53 then Fin (of_int i)
      else
        let e = bitLength a - 53;
            m = a div 2 ^ e;
            r = a mod 2 ^ e;
            h = 2 ^ (e - 1);
            m' = (if h < r \<or> (r = h \<and> odd m) then m + 1 else m);
            v = m' * 2 ^ e
        in if 2 ^ 1024 \<le> v then (if i < 0 then NegInf else PosInf)
           else Fin (of_int (if i < 0 then - int v else int v)))"

definition parseInt :: "jsstring \<Rightarrow> number" where
  "parseInt string =
     (let S = dropWhile isWhiteSpace string;
          sign = (if S \<noteq> [] \<and> hd S = 0x2D then - 1 else 1 :: int);
          S1 = (if S \<noteq> [] \<and> (hd S = 0x2B \<or> hd S = 0x2D) then tl S else S);
          hex = (take 2 S1 = js ''0x'' \<or> take 2 S1 = js ''0X'');
          R = (if hex then 16 else 10);
          S2 = (if hex then drop 2 S1 else S1);
          Z = takeWhile (radixDigit R) S2
      in if Z = [] then NaN else toNumber (sign * int (mathInt R Z)))"

section \<open>The round validator of the example module\<close>

text \<open>
  \<open>validateRound\<close> of \<open>examples/encrypt-arbitrary-text.js\<close>: three guards, each
  throwing an \<open>Error\<close>, then the round is returned.
\<close>

definition validateRound :: "number \<Rightarrow> jserror + number" where
  "validateRound roundNumber =
     (if \<not> isInteger roundNumber then Inl (Error (js ''Round number must be an integer''))
      else if num_lt roundNumber (Fin 1) then Inl (Error (js ''Round number must be at least 1''))
      else if num_lt MAX_SAFE_INTEGER roundNumber then Inl (Error (js ''Round number is too large''))
      else Inr roundNumber)"

text \<open>
  The condition as the specification words it: the number is an integer \<open>n\<close> with
  \<open>1 \<le> n \<le> MAX_SAFE_INTEGER\<close>.
\<close>

definition integer_in_safe_range :: "number \<Rightarrow> bool" where
  "integer_in_safe_range r \<longleftrightarrow> (\<exists>n::int. r = Fin (of_int n) \<and> 1 \<le> n \<and> n \<le> 2 ^ 53 - 1)"

section \<open>The command-line tool\<close>

subsection \<open>Characters outside ASCII, as UTF-16 code units\<close>

definition dquote :: jsstring where "dquote = [0x0022]"
definition newline :: jsstring where "newline = [0x000A]"
definition CROSS_MARK :: jsstring where "CROSS_MARK = [0x274C]"
definition LOCK_WITH_KEY :: jsstring where "LOCK_WITH_KEY = [0xD83D, 0xDD10]"
definition MEMO :: jsstring where "MEMO = [0xD83D, 0xDCDD]"
definition DIRECT_HIT :: jsstring where "DIRECT_HIT = [0xD83C, 0xDFAF]"
definition GLOBE :: jsstring where "GLOBE = [0xD83C, 0xDF10]"
definition LINK_SYMBOL :: jsstring where "LINK_SYMBOL = [0xD83D, 0xDD17]"
definition CLIPBOARD :: jsstring where "CLIPBOARD = [0xD83D, 0xDCCB]"
definition WARNING_SIGN :: jsstring where "WARNING_SIGN = [0x26A0, 0xFE0F]"
definition CHECK_MARK :: jsstring where "CHECK_MARK = [0x2705]"
definition OUTBOX_TRAY :: jsstring where "OUTBOX_TRAY = [0xD83D, 0xDCE4]"
definition BOX_LINE :: jsstring where "BOX_LINE = [0x2500]"
definition FILE_FOLDER :: jsstring where "FILE_FOLDER = [0xD83D, 0xDCC1]"
definition ALARM_CLOCK :: jsstring where "ALARM_CLOCK = [0x23F0]"
definition BAR_CHART :: jsstring where "BAR_CHART = [0xD83D, 0xDCCA]"
definition ROCKET :: jsstring where "ROCKET = [0xD83D, 0xDE80]"
definition PARTY_POPPER :: jsstring where "PARTY_POPPER = [0xD83C, 0xDF89]"
definition LIGHT_BULB :: jsstring where "LIGHT_BULB = [0xD83D, 0xDCA1]"
definition COLLISION :: jsstring where "COLLISION = [0xD83D, 0xDCA5]"

subsection \<open>Effects\<close>

text \<open>
  What a run does to the outside world, in order: the strings handed to the standard
  output and standard error streams, and the calls to the collaborators (the chain-info
  query, the encryption primitive, the file write). A client handle is known to the
  program only as the constructor that made it, \<open>mainnetClient()\<close> or
  \<open>testnetClient()\<close>; \<open>Utf8 s\<close> is \<open>Buffer.from(s, 'utf8')\<close>.
\<close>

datatype network = Mainnet | Testnet

datatype buffer = Utf8 jsstring

datatype event =
    StdoutWrite jsstring
  | StderrWrite jsstring
  | ChainInfoCall network
  | EncryptCall number buffer network
  | WriteFileCall jsstring jsstring

text \<open>\<open>console.log\<close> writes its argument and a newline to standard output,
  \<open>console.error\<close> to standard error; given two arguments (the first without format
  specifiers) they are joined by a space.\<close>

definition console_log :: "jsstring \<Rightarrow> event" where
  "console_log s = StdoutWrite (s @ newline)"

definition console_error :: "jsstring \<Rightarrow> event" where
  "console_error s = StderrWrite (s @ newline)"

definition console_error2 :: "jsstring \<Rightarrow> jsstring \<Rightarrow> event" where
  "console_error2 s t = StderrWrite (s @ js '' '' @ t @ newline)"

text \<open>The collaborators and platform routines whose code is outside the repository:
  \<open>client.chain().info()\<close>, \<open>timelockEncrypt\<close>, \<open>fs.writeFileSync\<close> (\<open>Some e\<close> when
  it throws), \<open>new Date().toISOString()\<close>, the rendering of an error object by
  \<open>console.error\<close>, \<open>Number::toString\<close> where it is not plain decimal digits, and
  what the runtime prints on standard error for an error nothing handled.\<close>

record chainInfo =
  hash :: jsstring
  schemeID :: jsstring

record env =
  chain_info :: "network \<Rightarrow> jserror + chainInfo"
  timelockEncrypt :: "number \<Rightarrow> buffer \<Rightarrow> network \<Rightarrow> jserror + jsstring"
  writeFileSync :: "jsstring \<Rightarrow> jsstring \<Rightarrow> jserror option"
  toISOString_now :: jsstring
  inspect :: "jserror \<Rightarrow> jsstring"
  toString_other :: "rat \<Rightarrow> jsstring"
  uncaughtReport :: "jserror \<Rightarrow> jsstring"

subsection \<open>Numbers in template literals\<close>

fun digits :: "nat \<Rightarrow> jsstring" where
  "digits n = (if n < 10 then [of_nat (0x30 + n)] else digits (n div 10) @ [of_nat (0x30 + n mod 10)])"

declare digits.simps [simp del]

text \<open>
  \<open>Number::toString\<close> prints the shortest decimal digits that read back as the double.
  For an integer below \<open>2^53\<close> in magnitude these are its own decimal digits: every
  integer of that range is a double, so no shorter numeral reads back as it. From
  \<open>2^53\<close> on the doubles are sparser and the digits printed are in general not those of
  the exact value (\<open>2^60\<close> prints as 1152921504606847000), and from \<open>10^21\<close> on the
  notation is exponential; there, and for fractions, the string is left to the engine.
\<close>

definition numberToString :: "env \<Rightarrow> number \<Rightarrow> jsstring" where
  "numberToString env x =
     (case x of
        NaN \<Rightarrow> js ''NaN''
      | PosInf \<Rightarrow> js ''Infinity''
      | NegInf \<Rightarrow> js ''-Infinity''
      | Fin q \<Rightarrow>
          if of_int \<lfloor>q\<rfloor> = q \<and> \<bar>q\<bar> < 2 ^ 53
          then (if q < 0 then js ''-'' else []) @ digits (nat \<bar>\<lfloor>q\<rfloor>\<bar>)
          else toString_other env q)"

text \<open>\<open>(length / 1024).toFixed(2)\<close>: the quotient is exact in binary, and \<open>toFixed\<close>
  takes the nearest multiple of \<open>1/100\<close>, the larger one on a tie.\<close>

definition toFixed2_KB :: "nat \<Rightarrow> jsstring" where
  "toFixed2_KB len =
     (let n = (len * 100 + 512) div 1024
      in digits (n div 100) @ js ''.'' @ digits (n div 10 mod 10) @ digits (n mod 10))"

subsection \<open>\<open>parseArgs\<close>\<close>

record options =
  text_opt :: jsstring
  round_opt :: number
  output_opt :: "jsstring option"
  testnet :: bool
  verbose :: bool
  stdout :: bool
  quiet :: bool

text \<open>JavaScript truthiness of \<open>options.output\<close>, which is \<open>null\<close> or a string: the
  empty string counts as false, like \<open>null\<close>. \<open>orElse v d\<close> is \<open>v || d\<close>, and also the
  value of \<open>filename\<close> after \<open>let filename = v; if (!filename) { filename = d }\<close>.\<close>

definition truthy :: "jsstring option \<Rightarrow> bool" where
  "truthy v = (case v of None \<Rightarrow> False | Some s \<Rightarrow> s \<noteq> [])"

definition orElse :: "jsstring option \<Rightarrow> jsstring \<Rightarrow> jsstring" where
  "orElse v d = (case v of None \<Rightarrow> d | Some s \<Rightarrow> if s \<noteq> [] then s else d)"

definition unlines :: "jsstring list \<Rightarrow> jsstring" where
  "unlines ls = concat (map (\<lambda>l. l @ newline) ls)"

definition helpLines :: "jsstring list" where
  "helpLines =
    [LOCK_WITH_KEY @ js '' TLOCK-JS CLI: Encrypt Text from Command Line'',
     js ''================================================'',
     [],
     js ''USAGE:'',
     js ''  node examples/cli-encrypt.js '' @ dquote @ js ''text'' @ dquote @ js '' round [options]'',
     [],
     js ''ARGUMENTS:'',
     js ''  text    The text to encrypt (use quotes for spaces)'',
     js ''  round   Target drand round number (must be >= 1)'',
     [],
     js ''OPTIONS:'',
     js ''  -o, --output <file>    Output filename (default: auto-generated)'',
     js ''  -s, --stdout           Output encrypted content to stdout (for piping)'',
     js ''  -q, --quiet            Suppress all output except encrypted content (use with --stdout)'',
     js ''  -t, --testnet          Use testnet instead of mainnet'',
     js ''  -v, --verbose          Show detailed information'',
     js ''  -h, --help             Show this help message'',
     [],
     js ''EXAMPLES:'',
     js ''  # Basic encryption'',
     js ''  node examples/cli-encrypt.js '' @ dquote @ js ''Hello World'' @ dquote @ js '' 11645812'',
     js ''  '',
     js ''  # Save to specific file'',
     js ''  node examples/cli-encrypt.js '' @ dquote @ js ''Secret message'' @ dquote @ js '' 11645812 --output secret.age'',
     js ''  '',
     js ''  # Output to stdout (for piping to other tools)'',
     js ''  node examples/cli-encrypt.js '' @ dquote @ js ''Secret message'' @ dquote @ js '' 11645812 --stdout'',
     js ''  '',
     js ''  # Quiet stdout output (only encrypted content)'',
     js ''  node examples/cli-encrypt.js '' @ dquote @ js ''Secret message'' @ dquote @ js '' 11645812 --stdout --quiet'',
     js ''  '',
     js ''  # Use testnet'',
     js ''  node examples/cli-encrypt.js '' @ dquote @ js ''Test message'' @ dquote @ js '' 20000 --testnet'',
     js ''  '',
     js ''  # Verbose output'',
     js ''  node examples/cli-encrypt.js '' @ dquote @ js ''My text'' @ dquote @ js '' 11650000 --verbose'',
     [],
     js ''NETWORKS:'',
     js ''  Mainnet (default): 52db9ba70e0cc0f6eaf7803dd07447a1f5477735fd3f661792ba94600c84e971'',
     js ''  Testnet:           7672797f548f3f4748ac4bf3352fc6c6b6468c9ad40ad456a397545c6e2df5bf'',
     [],
     js ''PIPING EXAMPLES:'',
     js ''  # Save encrypted content to file'',
     js ''  node examples/cli-encrypt.js '' @ dquote @ js ''My secret'' @ dquote @ js '' 11645812 --stdout > secret.age'',
     js ''  '',
     js ''  # Encrypt and immediately decrypt (for testing)'',
     js ''  node examples/cli-encrypt.js '' @ dquote @ js ''Test'' @ dquote @ js '' 11645812 --stdout | node examples/cli-decrypt.js'',
     js ''  '',
     js ''  # Encrypt and compress'',
     js ''  node examples/cli-encrypt.js '' @ dquote @ js ''Long text'' @ dquote @ js '' 11645812 --stdout | gzip > secret.age.gz'']"

text \<open>Both templates start and end with a line break.\<close>

definition showHelp :: "event list" where
  "showHelp = [console_log (newline @ unlines helpLines)]"

definition showUsage :: "event list" where
  "showUsage = [console_log (newline @ unlines
     [js ''USAGE: node examples/cli-encrypt.js '' @ dquote @ js ''text'' @ dquote @ js '' round [options]'',
      js ''Try: node examples/cli-encrypt.js --help for more information''])]"

text \<open>
  The flag loop \<open>for (let i = 2; i < args.length; i++)\<close>, as a recursion over the
  arguments from index 2 on. \<open>Inl code\<close> is \<open>process.exit(code)\<close>, which ends the
  process at once. A token that matches no branch (the chain has no final \<open>else\<close>)
  leaves the options as they are.
\<close>

fun parseFlags :: "jsstring list \<Rightarrow> options \<Rightarrow> event list \<times> (nat + options)" where
  "parseFlags [] opts = ([], Inr opts)"
| "parseFlags (arg # rest) opts =
     (if arg = js ''--output'' \<or> arg = js ''-o'' then
        (case rest of
           next_arg # rest' \<Rightarrow> parseFlags rest' (opts\<lparr>output_opt := Some next_arg\<rparr>)
         | [] \<Rightarrow> ([console_error (CROSS_MARK @ js '' Error: --output requires a filename'')], Inl 1))
      else if arg = js ''--testnet'' \<or> arg = js ''-t'' then parseFlags rest (opts\<lparr>testnet := True\<rparr>)
      else if arg = js ''--verbose'' \<or> arg = js ''-v'' then parseFlags rest (opts\<lparr>verbose := True\<rparr>)
      else if arg = js ''--stdout'' \<or> arg = js ''-s'' then parseFlags rest (opts\<lparr>stdout := True\<rparr>)
      else if arg = js ''--quiet'' \<or> arg = js ''-q'' then parseFlags rest (opts\<lparr>quiet := True\<rparr>)
      else if startsWith arg (js ''--'') then
        ([console_error (CROSS_MARK @ js '' Error: Unknown flag: '' @ arg)], Inl 1)
      else parseFlags rest opts)"

definition parseArgs :: "jsstring list \<Rightarrow> event list \<times> (nat + options)" where
  "parseArgs argv =
     (let args = drop 2 argv in
      if js ''--help'' \<in> set args \<or> js ''-h'' \<in> set args then (showHelp, Inl 0)
      else if length args < 2 then
        (console_error (CROSS_MARK @ js '' Error: Missing required arguments'') # showUsage, Inl 1)
      else
        let txt = args ! 0; rnd = parseInt (args ! 1) in
        if txt = [] \<or> length (trim txt) = 0 then
          ([console_error (CROSS_MARK @ js '' Error: Text cannot be empty'')], Inl 1)
        else if isNaN rnd \<or> num_lt rnd (Fin 1) then
          ([console_error (CROSS_MARK @ js '' Error: Round must be a positive integer'')], Inl 1)
        else
          (case parseFlags (drop 2 args)
                  \<lparr>text_opt = txt, round_opt = rnd, output_opt = None, testnet = False,
                   verbose = False, stdout = False, quiet = False\<rparr> of
             (t, Inl code) \<Rightarrow> (t, Inl code)
           | (t, Inr opts) \<Rightarrow>
               if stdout opts \<and> truthy (output_opt opts) then
                 (t @ [console_error (CROSS_MARK @ js '' Error: Cannot use both --stdout and --output'')], Inl 1)
               else if quiet opts \<and> \<not> stdout opts then
                 (t @ [console_error (CROSS_MARK @ js '' Error: --quiet can only be used with --stdout'')], Inl 1)
               else (t, Inr opts)))"

subsection \<open>\<open>encryptText\<close> and \<open>main\<close> of the command-line tool\<close>

text \<open>The report printed before the encryption call, with the diagnostic chain-info
  query of verbose mode and its own \<open>try\<close>/\<open>catch\<close>.\<close>

definition announce :: "env \<Rightarrow> options \<Rightarrow> event list" where
  "announce env options =
     (let client = (if testnet options then Testnet else Mainnet);
          networkName = (if testnet options then js ''testnet'' else js ''mainnet (quicknet)'')
      in
      if \<not> quiet options then
        (if verbose options then
           [console_log (LOCK_WITH_KEY @ js '' Encrypting text for '' @ networkName),
            console_log (MEMO @ js '' Text: '' @ dquote @ text_opt options @ dquote),
            console_log (DIRECT_HIT @ js '' Round: '' @ numberToString env (round_opt options)),
            console_log (GLOBE @ js '' Network: '' @ networkName),
            ChainInfoCall client] @
           (case chain_info env client of
              Inr info \<Rightarrow>
                [console_log (LINK_SYMBOL @ js '' Chain Hash: '' @ hash info),
                 console_log (CLIPBOARD @ js '' Scheme: '' @ schemeID info)]
            | Inl error \<Rightarrow>
                [console_log (WARNING_SIGN @ js ''  Could not fetch chain info: '' @ message error)])
         else
           [console_log (LOCK_WITH_KEY @ js '' Encrypting: '' @ dquote @ text_opt options @ dquote),
            console_log (DIRECT_HIT @ js '' Target round: '' @ numberToString env (round_opt options))])
      else [])"

text \<open>The \<open>catch\<close> block of \<open>encryptText\<close>, before it rethrows.\<close>

definition reportFailure :: "env \<Rightarrow> options \<Rightarrow> jserror \<Rightarrow> event list" where
  "reportFailure env options error =
     (if \<not> quiet options then
        console_error2 (CROSS_MARK @ js '' Encryption failed:'') (message error) #
        (if verbose options then [console_error2 (js ''Full error:'') (inspect env error)] else [])
      else [])"

text \<open>\<open>new Date().toISOString().replace(/[:.]/g, '-').slice(0, -5)\<close>.\<close>

definition timestamp :: "jsstring \<Rightarrow> jsstring" where
  "timestamp isoString =
     (let replaced = map (\<lambda>c. if c = 0x3A \<or> c = 0x2E then 0x2D else c) isoString
      in take (length replaced - 5) replaced)"

definition generatedFilename :: "env \<Rightarrow> options \<Rightarrow> jsstring" where
  "generatedFilename env options =
     (let network = (if testnet options then js ''testnet'' else js ''mainnet'')
      in js ''encrypted-'' @ network @ js ''-round-'' @ numberToString env (round_opt options) @
         js ''-'' @ timestamp (toISOString_now env) @ js ''.age'')"

record result =
  encrypted :: jsstring
  filename :: "jsstring option"

text \<open>The reports of \<open>encryptText\<close> after the encryption call has returned: the
  success line, the \<open>if (stdout)\<close> branch around \<open>process.stdout.write(encrypted)\<close>,
  and the lines that follow \<open>fs.writeFileSync\<close>.\<close>

definition successLine :: "options \<Rightarrow> event list" where
  "successLine options =
     (if \<not> quiet options then [console_log (CHECK_MARK @ js '' Encryption successful!'')] else [])"

definition streamOut :: "options \<Rightarrow> jsstring \<Rightarrow> event list" where
  "streamOut options enc =
     (if \<not> quiet options then
        [console_log (OUTBOX_TRAY @ js '' Outputting encrypted content to stdout:''),
         console_log (concat (replicate 50 BOX_LINE))]
      else []) @
     [StdoutWrite enc] @
     (if \<not> quiet options then [console_log (concat (replicate 50 (newline @ BOX_LINE)))] else [])"

definition savedReport :: "env \<Rightarrow> options \<Rightarrow> jsstring \<Rightarrow> jsstring \<Rightarrow> event list" where
  "savedReport env options file enc =
     (if \<not> quiet options then
        [console_log (FILE_FOLDER @ js '' Saved to: '' @ file),
         console_log (ALARM_CLOCK @ js '' Can be decrypted after round '' @
            numberToString env (round_opt options) @ js '' is reached'')] @
        (if verbose options then
           [console_log (newline @ BAR_CHART @ js '' File Details:''),
            console_log (js ''   Size: '' @ toFixed2_KB (length enc) @ js '' KB''),
            console_log (js ''   Format: Age encryption with timelock''),
            console_log (js ''   Filekey Hash: Included for verification'')]
         else [])
      else [])"

text \<open>
  \<open>encryptText(options)\<close>: the events of the call, and \<open>Inl error\<close> when it throws
  (the promise rejects) or \<open>Inr\<close> the object it returns. Everything runs inside one
  \<open>try\<close>, so a failure of the encryption primitive and a failure of the file write
  both reach the \<open>catch\<close> block.
\<close>

definition encryptText :: "env \<Rightarrow> options \<Rightarrow> event list \<times> (jserror + result)" where
  "encryptText env options =
     (let client = (if testnet options then Testnet else Mainnet);
          textBuffer = Utf8 (text_opt options);
          t1 = announce env options @ [EncryptCall (round_opt options) textBuffer client]
      in
      case timelockEncrypt env (round_opt options) textBuffer client of
        Inl error \<Rightarrow> (t1 @ reportFailure env options error, Inl error)
      | Inr enc \<Rightarrow>
          (let t2 = t1 @ successLine options in
           if stdout options then
             (t2 @ streamOut options enc, Inr \<lparr>encrypted = enc, filename = None\<rparr>)
           else
             (let file = orElse (output_opt options) (generatedFilename env options);
                  t3 = t2 @ [WriteFileCall file enc]
              in
              case writeFileSync env file enc of
                Some error \<Rightarrow> (t3 @ reportFailure env options error, Inl error)
              | None \<Rightarrow>
                  (t3 @ savedReport env options file enc,
                   Inr \<lparr>encrypted = enc,
                        filename = Some (orElse (output_opt options) (js ''auto-generated''))\<rparr>))))"

text \<open>
  How \<open>main()\<close> ends: \<open>process.exit(code)\<close> was called, or its promise resolved, or
  its promise rejected with a thrown value.
\<close>

datatype outcome = Exited nat | Resolved | Rejected jserror

text \<open>
  The two reports \<open>main\<close> prints unless \<open>quiet\<close> is set: \<open>banner\<close> before the call of
  \<open>encryptText\<close> and \<open>farewell\<close> after it. \<open>parseArgs\<close> itself never throws: it
  returns or exits.
\<close>

definition banner :: "options \<Rightarrow> event list" where
  "banner options =
     (if \<not> quiet options then
        [console_log (ROCKET @ js '' TLOCK-JS CLI Encryption Tool''),
         console_log (js ''================================'' @ newline)]
      else [])"

definition farewell :: "options \<Rightarrow> event list" where
  "farewell options =
     (if \<not> quiet options then
        (if stdout options then
           [console_log (newline @ PARTY_POPPER @ js '' Done! Encrypted content output to stdout.''),
            console_log (newline @ LIGHT_BULB @
               js '' You can pipe this output to other tools or save to file.'')]
         else
           [console_log (newline @ PARTY_POPPER @
               js '' Done! Your text has been encrypted and saved.'')]) @
        [console_log (newline @ LIGHT_BULB @ js '' To decrypt later, use:''),
         console_log (js ''   const decrypted = await timelockDecrypt(encryptedContent, client);'')]
      else [])"

text \<open>
  The \<open>catch\<close> block of \<open>main\<close>, given the binding of the identifier \<open>options\<close> that
  is visible where the block stands. With no binding, evaluating \<open>options.quiet\<close> throws
  a \<open>ReferenceError\<close> and the rest of the block is not reached.
\<close>

definition catchBlock :: "options option \<Rightarrow> jserror \<Rightarrow> event list \<times> outcome" where
  "catchBlock visible error =
     (case visible of
        None \<Rightarrow> ([], Rejected (ReferenceError (js ''options is not defined'')))
      | Some options \<Rightarrow>
          ((if \<not> quiet options
            then [console_error2 (newline @ COLLISION @ js '' Fatal error:'') (message error)]
            else []),
           Exited 1))"

text \<open>
  \<open>main\<close>. \<open>const options = parseArgs()\<close> stands inside the \<open>try\<close> block, so the
  name is scoped to that block, and the module declares no other \<open>options\<close>: in the
  \<open>catch\<close> block nothing is bound to it.
\<close>

definition main :: "env \<Rightarrow> jsstring list \<Rightarrow> event list \<times> outcome" where
  "main env argv =
     (case parseArgs argv of
        (t0, Inl code) \<Rightarrow> (t0, Exited code)
      | (t0, Inr options) \<Rightarrow>
          (case encryptText env options of
             (t2, Inr res) \<Rightarrow> (t0 @ banner options @ t2 @ farewell options, Resolved)
           | (t2, Inl error) \<Rightarrow>
               (case catchBlock None error of
                  (t3, out) \<Rightarrow> (t0 @ banner options @ t2 @ t3, out))))"

text \<open>
  The script, run directly: it calls \<open>main()\<close> and handles nothing. \<open>process.exit(code)\<close>
  ends the process with that status; when the promise of \<open>main\<close> resolves, the process
  ends with status 0. A rejection that nothing handles is raised by the runtime as an
  uncaught exception (the default of Node.js since version 15; the repository asks for
  Node.js 18 or later): the runtime prints the error on standard error and ends the
  process with status 1.
\<close>

definition runScript :: "env \<Rightarrow> jsstring list \<Rightarrow> event list \<times> nat" where
  "runScript env argv =
     (case main env argv of
        (t, Exited code) \<Rightarrow> (t, code)
      | (t, Resolved) \<Rightarrow> (t, 0)
      | (t, Rejected error) \<Rightarrow> (t @ [StderrWrite (uncaughtReport env error)], 1))"

subsection \<open>\<open>encryptText\<close> of the example module\<close>

text \<open>\<open>encryptText(text, roundNumber, client)\<close> of
  \<open>examples/encrypt-arbitrary-text.js\<close>: the round guard, the text guard, then the call.\<close>

definition encryptText_example ::
    "env \<Rightarrow> jsstring \<Rightarrow> number \<Rightarrow> network \<Rightarrow> event list \<times> (jserror + jsstring)" where
  "encryptText_example env txt roundNumber client =
     (if num_lt roundNumber (Fin 1) then ([], Inl (Error (js ''Round number must be at least 1'')))
      else if txt = [] \<or> length (trim txt) = 0 then ([], Inl (Error (js ''Text cannot be empty'')))
      else
        (let t = [console_log (LOCK_WITH_KEY @ js '' Encrypting: '' @ dquote @ txt @ dquote),
                  console_log (DIRECT_HIT @ js '' Target round: '' @ numberToString env roundNumber),
                  EncryptCall roundNumber (Utf8 txt) client]
         in
         case timelockEncrypt env roundNumber (Utf8 txt) client of
           Inr enc \<Rightarrow> (t @ [console_log (CHECK_MARK @ js '' Encryption successful!'')], Inr enc)
         | Inl error \<Rightarrow>
             (t @ [console_error2 (CROSS_MARK @ js '' Encryption failed:'') (inspect env error)],
              Inl error)))"

subsection \<open>Reading a trace\<close>

definition stdout_writes :: "event list \<Rightarrow> jsstring list" where
  "stdout_writes t = concat (map (\<lambda>e. case e of StdoutWrite s \<Rightarrow> [s] | _ \<Rightarrow> []) t)"

definition stdout_bytes :: "event list \<Rightarrow> jsstring" where
  "stdout_bytes t = concat (stdout_writes t)"

definition stderr_writes :: "event list \<Rightarrow> jsstring list" where
  "stderr_writes t = concat (map (\<lambda>e. case e of StderrWrite s \<Rightarrow> [s] | _ \<Rightarrow> []) t)"

definition file_writes :: "event list \<Rightarrow> (jsstring \<times> jsstring) list" where
  "file_writes t = concat (map (\<lambda>e. case e of WriteFileCall f c \<Rightarrow> [(f, c)] | _ \<Rightarrow> []) t)"

text \<open>The events that are network or cryptographic work: the chain-info query and the
  encryption call.\<close>

definition is_network :: "event \<Rightarrow> bool" where
  "is_network e = (case e of ChainInfoCall c \<Rightarrow> True | EncryptCall r b c \<Rightarrow> True | _ \<Rightarrow> False)"

definition network_calls :: "event list \<Rightarrow> event list" where
  "network_calls t = filter is_network t"

subsection \<open>Vocabulary of the statements\<close>

text \<open>The conditions \<open>parseArgs\<close> tests, named: the help test
  \<open>args.includes('--help') || args.includes('-h')\<close>, and the text test
  \<open>!text || text.trim().length === 0\<close> (a string is falsy exactly when it is empty).\<close>

definition helpRequested :: "jsstring list \<Rightarrow> bool" where
  "helpRequested args \<longleftrightarrow> js ''--help'' \<in> set args \<or> js ''-h'' \<in> set args"

definition blank :: "jsstring \<Rightarrow> bool" where
  "blank txt \<longleftrightarrow> txt = [] \<or> length (trim txt) = 0"

abbreviation initial_options :: "jsstring \<Rightarrow> number \<Rightarrow> options" where
  "initial_options txt rnd \<equiv>
     \<lparr>text_opt = txt, round_opt = rnd, output_opt = None, testnet = False,
      verbose = False, stdout = False, quiet = False\<rparr>"

definition clientOf :: "options \<Rightarrow> network" where
  "clientOf options = (if testnet options then Testnet else Mainnet)"

text \<open>The flags the loop of \<open>parseArgs\<close> knows, and the tokens it looks at as flags:
  every token from index 2 on except the one that follows \<open>--output\<close>/\<open>-o\<close>, which
  is taken as the file name.\<close>

definition recognizedFlags :: "jsstring list" where
  "recognizedFlags =
     [js ''--output'', js ''-o'', js ''--testnet'', js ''-t'', js ''--verbose'', js ''-v'',
      js ''--stdout'', js ''-s'', js ''--quiet'', js ''-q'']"

fun flagTokens :: "jsstring list \<Rightarrow> jsstring list" where
  "flagTokens [] = []"
| "flagTokens [arg] = [arg]"
| "flagTokens (arg # next_arg # rest) =
     arg # (if arg = js ''--output'' \<or> arg = js ''-o'' then flagTokens rest
            else flagTokens (next_arg # rest))"

text \<open>The code units of the decimal digits, \<open>0\<close> to \<open>9\<close>.\<close>

definition decimalDigits :: "16 word set" where
  "decimalDigits = {0x30, 0x31, 0x32, 0x33, 0x34, 0x35, 0x36, 0x37, 0x38, 0x39}"

text \<open>A line as \<open>console.log\<close> and \<open>console.error\<close> write it.\<close>

definition line :: "jsstring \<Rightarrow> jsstring" where
  "line s = s @ newline"

subsection \<open>Example runs\<close>

text \<open>An argument vector as the process receives it, and collaborators that answer
  with fixed values: the chain-info query with \<open>info\<close>, the encryption primitive with
  \<open>enc\<close>; the file write succeeds and the clock reads 2025-01-02T03:04:05.678Z.\<close>

definition cli :: "string list \<Rightarrow> jsstring list" where
  "cli words = js ''node'' # js ''examples/cli-encrypt.js'' # map js words"

definition mockEnv :: "jserror + chainInfo \<Rightarrow> jserror + jsstring \<Rightarrow> env" where
  "mockEnv info enc =
     \<lparr>chain_info = (\<lambda>c. info), timelockEncrypt = (\<lambda>r b c. enc), writeFileSync = (\<lambda>f c. None),
      toISOString_now = js ''2025-01-02T03:04:05.678Z'',
      inspect = (\<lambda>e. js ''Error: '' @ message e), toString_other = (\<lambda>q. js ''?''),
      uncaughtReport = (\<lambda>e. js ''Uncaught: '' @ message e @ newline)\<rparr>"

definition quicknetInfo :: chainInfo where
  "quicknetInfo =
     \<lparr>hash = js ''52db9ba70e0cc0f6eaf7803dd07447a1f5477735fd3f661792ba94600c84e971'',
      schemeID = js ''bls-unchained-g1-rfc9380''\<rparr>"

section \<open>Properties\<close>

subsection \<open>Round validation\<close>

lemma isInteger_iff: "isInteger r \<longleftrightarrow> (\<exists>n::int. r = Fin (of_int n))"
proof (cases r)
  case (Fin q)
  show ?thesis
  proof
    assume "isInteger r"
    then have "of_int \<lfloor>q\<rfloor> = q" unfolding Fin isInteger.simps .
    then have "r = Fin (of_int \<lfloor>q\<rfloor>)" unfolding Fin by (rule arg_cong [OF sym])
    then show "\<exists>n::int. r = Fin (of_int n)" by (rule exI)
  next
    assume "\<exists>n::int. r = Fin (of_int n)"
    then obtain n :: int where "r = Fin (of_int n)" by blast
    then show "isInteger r" by simp
  qed
qed simp_all

lemma validateRound_cases:
  "validateRound r = (if integer_in_safe_range r then Inr r
     else if \<not> isInteger r then Inl (Error (js ''Round number must be an integer''))
     else if num_lt r (Fin 1) then Inl (Error (js ''Round number must be at least 1''))
     else Inl (Error (js ''Round number is too large'')))"
proof (cases "isInteger r")
  case False
  then have "\<not> integer_in_safe_range r"
    by (auto simp: integer_in_safe_range_def)
  with False show ?thesis by (simp add: validateRound_def)
next
  case True
  then obtain n :: int where r: "r = Fin (of_int n)"
    using isInteger_iff by blast
  have "integer_in_safe_range r \<longleftrightarrow> 1 \<le> n \<and> n \<le> 2 ^ 53 - 1"
    unfolding integer_in_safe_range_def r by auto
  moreover have "num_lt r (Fin 1) \<longleftrightarrow> n < 1"
    unfolding r by simp
  moreover have "num_lt MAX_SAFE_INTEGER r \<longleftrightarrow> 2 ^ 53 - 1 < n"
  proof -
    have "(9007199254740991::rat) = of_int (2 ^ 53 - 1)" by simp
    then show ?thesis
      unfolding r MAX_SAFE_INTEGER_def num_lt.simps by (metis of_int_less_iff)
  qed
  ultimately show ?thesis
    using True by (auto simp: validateRound_def)
qed

text \<open>
  C2. For every number \<open>r\<close>, \<open>validateRound r\<close> returns \<open>r\<close> unchanged exactly when
  \<open>r\<close> is an integer with \<open>1 \<le> r \<le> MAX_SAFE_INTEGER\<close>, and throws an \<open>Error\<close>
  for every other number (\<open>NaN\<close>, the infinities and fractions included).
\<close>

theorem validateRound_succeeds_iff:
  "(integer_in_safe_range r \<longrightarrow> validateRound r = Inr r) \<and>
   (\<not> integer_in_safe_range r \<longrightarrow> (\<exists>msg. validateRound r = Inl (Error msg)))"
  by (simp add: validateRound_cases)

lemma integer_in_safe_range_100: "integer_in_safe_range (Fin 100)"
  unfolding integer_in_safe_range_def by (rule exI [of _ 100]) simp

lemma not_integer_in_safe_range_frac: "\<not> integer_in_safe_range (Fin (7 / 2))"
proof -
  have "\<not> isInteger (Fin (7 / 2))" by code_simp
  then show ?thesis
    unfolding isInteger_iff integer_in_safe_range_def by blast
qed

theorem validateRound_succeeds_iff_witness:
  "validateRound (Fin 100) = Inr (Fin 100) \<and>
   (\<exists>msg. validateRound (Fin (7 / 2)) = Inl (Error msg)) \<and>
   integer_in_safe_range (Fin 100) \<and> \<not> integer_in_safe_range (Fin (7 / 2))"
  using validateRound_succeeds_iff [of "Fin 100"] validateRound_succeeds_iff [of "Fin (7 / 2)"]
    integer_in_safe_range_100 not_integer_in_safe_range_frac
  by blast

subsection \<open>Strings\<close>

lemma unat_of_char: "unat (of_char c :: 16 word) = of_char c"
proof -
  have "(of_char c :: nat) mod 256 < 256" by (rule mod_less_divisor) simp
  then have "(of_char c :: nat) < 256" by (simp only: of_char_mod_256)
  then have lt: "(of_char c :: nat) < 65536" by linarith
  have "(of_char c :: 16 word) = of_nat (of_char c)" by (simp add: of_nat_of_char)
  then have "unat (of_char c :: 16 word) = unat (of_nat (of_char c) :: 16 word)" by simp
  also have "\<dots> = of_char c" using lt by (simp add: unat_of_nat)
  finally show ?thesis .
qed

lemma of_char_word_inj: "(of_char c :: 16 word) = of_char d \<longleftrightarrow> c = d"
proof
  assume "(of_char c :: 16 word) = of_char d"
  then have "unat (of_char c :: 16 word) = unat (of_char d :: 16 word)" by simp
  then have "(of_char c :: nat) = of_char d" by (simp only: unat_of_char)
  then show "c = d" by simp
qed simp

lemma js_eq_iff [simp]: "js s = js t \<longleftrightarrow> s = t"
  unfolding js_def by (simp add: inj_map_eq_map inj_on_def of_char_word_inj)

lemma js_Nil [simp]: "js s = [] \<longleftrightarrow> s = []" "[] = js s \<longleftrightarrow> s = []"
  unfolding js_def by auto

subsection \<open>The flag loop\<close>

lemma parseFlags_Inr_trace: "parseFlags fs opts = (t, Inr opts') \<Longrightarrow> t = []"
proof (induction fs opts rule: parseFlags.induct)
  case (1 opts)
  then show ?case by auto
next
  case (2 arg rest opts)
  then show ?case by (cases rest) (auto split: if_splits)
qed

lemma parseFlags_Inl:
  "parseFlags fs opts = (t, Inl c) \<Longrightarrow> c = 1 \<and> (\<exists>m. t = [console_error m])"
proof (induction fs opts rule: parseFlags.induct)
  case (1 opts)
  then show ?case by auto
next
  case (2 arg rest opts)
  then show ?case by (cases rest) (auto split: if_splits)
qed

lemma parseFlags_text:
  "parseFlags fs opts = (t, Inr opts') \<Longrightarrow> text_opt opts' = text_opt opts"
proof (induction fs opts rule: parseFlags.induct)
  case (1 opts)
  then show ?case by auto
next
  case (2 arg rest opts)
  then show ?case by (cases rest) (auto split: if_splits)
qed

lemma parseFlags_round:
  "parseFlags fs opts = (t, Inr opts') \<Longrightarrow> round_opt opts' = round_opt opts"
proof (induction fs opts rule: parseFlags.induct)
  case (1 opts)
  then show ?case by auto
next
  case (2 arg rest opts)
  then show ?case by (cases rest) (auto split: if_splits)
qed

subsection \<open>The branches of \<open>parseArgs\<close>\<close>

lemma parseArgs_help:
  assumes "helpRequested (drop 2 argv)"
  shows "parseArgs argv = (showHelp, Inl 0)"
proof -
  have h: "(js ''--help'' \<in> set (drop 2 argv) \<or> js ''-h'' \<in> set (drop 2 argv)) = True"
    using assms unfolding helpRequested_def by simp
  show ?thesis
    unfolding parseArgs_def Let_def h by (simp only: if_True)
qed

lemma parseArgs_missing:
  assumes "\<not> helpRequested (drop 2 argv)" "length (drop 2 argv) < 2"
  shows "parseArgs argv =
    (console_error (CROSS_MARK @ js '' Error: Missing required arguments'') # showUsage, Inl 1)"
proof -
  have h: "(js ''--help'' \<in> set (drop 2 argv) \<or> js ''-h'' \<in> set (drop 2 argv)) = False"
    using assms(1) unfolding helpRequested_def by simp
  show ?thesis
    unfolding parseArgs_def Let_def h using assms(2) by (simp only: if_True if_False)
qed

lemma parseArgs_blank:
  assumes "\<not> helpRequested (drop 2 argv)" "2 \<le> length (drop 2 argv)" "blank (drop 2 argv ! 0)"
  shows "parseArgs argv = ([console_error (CROSS_MARK @ js '' Error: Text cannot be empty'')], Inl 1)"
proof -
  have h: "(js ''--help'' \<in> set (drop 2 argv) \<or> js ''-h'' \<in> set (drop 2 argv)) = False"
    using assms(1) unfolding helpRequested_def by simp
  have "\<not> length (drop 2 argv) < 2"
    using assms(2) by linarith
  then have l: "(length (drop 2 argv) < 2) = False"
    by (rule eq_False [THEN iffD2])
  have b: "(drop 2 argv ! 0 = [] \<or> length (trim (drop 2 argv ! 0)) = 0) = True"
    using assms(3) unfolding blank_def by simp
  show ?thesis
    unfolding parseArgs_def Let_def h l b by (simp only: if_True if_False)
qed

lemma parseArgs_bad_round:
  assumes "\<not> helpRequested (drop 2 argv)" "2 \<le> length (drop 2 argv)" "\<not> blank (drop 2 argv ! 0)"
    and "isNaN (parseInt (drop 2 argv ! 1)) \<or> num_lt (parseInt (drop 2 argv ! 1)) (Fin 1)"
  shows "parseArgs argv =
    ([console_error (CROSS_MARK @ js '' Error: Round must be a positive integer'')], Inl 1)"
proof -
  have h: "(js ''--help'' \<in> set (drop 2 argv) \<or> js ''-h'' \<in> set (drop 2 argv)) = False"
    using assms(1) unfolding helpRequested_def by simp
  have "\<not> length (drop 2 argv) < 2"
    using assms(2) by linarith
  then have l: "(length (drop 2 argv) < 2) = False"
    by (rule eq_False [THEN iffD2])
  have b: "(drop 2 argv ! 0 = [] \<or> length (trim (drop 2 argv ! 0)) = 0) = False"
    using assms(3) unfolding blank_def by simp
  have r: "(isNaN (parseInt (drop 2 argv ! 1)) \<or> num_lt (parseInt (drop 2 argv ! 1)) (Fin 1)) = True"
    using assms(4) by simp
  show ?thesis
    unfolding parseArgs_def Let_def h l b r by (simp only: if_True if_False)
qed

lemma parseArgs_flags:
  assumes "\<not> helpRequested (drop 2 argv)" "2 \<le> length (drop 2 argv)" "\<not> blank (drop 2 argv ! 0)"
    and "\<not> isNaN (parseInt (drop 2 argv ! 1))" "\<not> num_lt (parseInt (drop 2 argv ! 1)) (Fin 1)"
  shows "parseArgs argv =
     (case parseFlags (drop 2 (drop 2 argv))
             (initial_options (drop 2 argv ! 0) (parseInt (drop 2 argv ! 1))) of
        (t, Inl code) \<Rightarrow> (t, Inl code)
      | (t, Inr opts) \<Rightarrow>
          if stdout opts \<and> truthy (output_opt opts) then
            (t @ [console_error (CROSS_MARK @ js '' Error: Cannot use both --stdout and --output'')], Inl 1)
          else if quiet opts \<and> \<not> stdout opts then
            (t @ [console_error (CROSS_MARK @ js '' Error: --quiet can only be used with --stdout'')], Inl 1)
          else (t, Inr opts))"
proof -
  have h: "(js ''--help'' \<in> set (drop 2 argv) \<or> js ''-h'' \<in> set (drop 2 argv)) = False"
    using assms(1) unfolding helpRequested_def by simp
  have "\<not> length (drop 2 argv) < 2"
    using assms(2) by linarith
  then have l: "(length (drop 2 argv) < 2) = False"
    by (rule eq_False [THEN iffD2])
  have b: "(drop 2 argv ! 0 = [] \<or> length (trim (drop 2 argv ! 0)) = 0) = False"
    using assms(3) unfolding blank_def by simp
  have r: "(isNaN (parseInt (drop 2 argv ! 1)) \<or> num_lt (parseInt (drop 2 argv ! 1)) (Fin 1)) = False"
    using assms(4,5) by simp
  show ?thesis
    unfolding parseArgs_def Let_def h l b r by (simp only: if_True if_False)
qed

text \<open>Every way \<open>parseArgs\<close> ends without returning: status 0 for the help text, status 1
  otherwise, and only console output before it.\<close>

lemma parseArgs_exit:
  assumes "parseArgs argv = (t, Inl c)"
  shows "(if helpRequested (drop 2 argv) then c = 0 else c = 1) \<and>
         network_calls t = [] \<and> file_writes t = []"
proof (cases "helpRequested (drop 2 argv)")
  case True
  with assms parseArgs_help [OF True] show ?thesis
    by (auto simp: showHelp_def console_log_def network_calls_def file_writes_def is_network_def)
next
  case nohelp: False
  show ?thesis
  proof (cases "length (drop 2 argv) < 2")
    case True
    with assms parseArgs_missing [OF nohelp True] nohelp show ?thesis
      by (auto simp: showUsage_def console_log_def console_error_def network_calls_def
          file_writes_def is_network_def)
  next
    case False
    then have len: "2 \<le> length (drop 2 argv)" by linarith
    show ?thesis
    proof (cases "blank (drop 2 argv ! 0)")
      case True
      with assms parseArgs_blank [OF nohelp len True] nohelp show ?thesis
        by (auto simp: console_error_def network_calls_def file_writes_def is_network_def)
    next
      case nonblank: False
      show ?thesis
      proof (cases "isNaN (parseInt (drop 2 argv ! 1)) \<or> num_lt (parseInt (drop 2 argv ! 1)) (Fin 1)")
        case True
        with assms parseArgs_bad_round [OF nohelp len nonblank True] nohelp show ?thesis
          by (auto simp: console_error_def network_calls_def file_writes_def is_network_def)
      next
        case False
        then have r: "\<not> isNaN (parseInt (drop 2 argv ! 1))"
          "\<not> num_lt (parseInt (drop 2 argv ! 1)) (Fin 1)" by simp_all
        note eq = parseArgs_flags [OF nohelp len nonblank r]
        obtain t' res where pf: "parseFlags (drop 2 (drop 2 argv))
             (initial_options (drop 2 argv ! 0) (parseInt (drop 2 argv ! 1))) = (t', res)"
          by (cases "parseFlags (drop 2 (drop 2 argv))
             (initial_options (drop 2 argv ! 0) (parseInt (drop 2 argv ! 1)))") 
        show ?thesis
        proof (cases res)
          case (Inl code)
          with pf parseFlags_Inl [of _ _ t' code] have "code = 1" "\<exists>m. t' = [console_error m]"
            by auto
          with assms eq pf Inl nohelp show ?thesis
            by (auto simp: console_error_def network_calls_def file_writes_def is_network_def)
        next
          case (Inr opts)
          with pf parseFlags_Inr_trace have "t' = []" by blast
          with assms eq pf Inr nohelp show ?thesis
            by (auto simp: console_error_def network_calls_def file_writes_def is_network_def
                split: if_splits)
        qed
      qed
    qed
  qed
qed

text \<open>What a returned options object tells about the argument vector.\<close>

lemma parseArgs_returns:
  assumes "parseArgs argv = (t, Inr opts)"
  shows "t = []" "\<not> helpRequested (drop 2 argv)" "2 \<le> length (drop 2 argv)"
    "\<not> blank (drop 2 argv ! 0)"
    "\<not> isNaN (parseInt (drop 2 argv ! 1))" "\<not> num_lt (parseInt (drop 2 argv ! 1)) (Fin 1)"
    "parseFlags (drop 2 (drop 2 argv))
       (initial_options (drop 2 argv ! 0) (parseInt (drop 2 argv ! 1))) = ([], Inr opts)"
    "\<not> (stdout opts \<and> truthy (output_opt opts))" "\<not> (quiet opts \<and> \<not> stdout opts)"
proof -
  show nohelp: "\<not> helpRequested (drop 2 argv)"
    using assms parseArgs_help by fastforce
  show len: "2 \<le> length (drop 2 argv)"
    using assms parseArgs_missing [OF nohelp] by fastforce
  show nonblank: "\<not> blank (drop 2 argv ! 0)"
    using assms parseArgs_blank [OF nohelp len] by fastforce
  have r: "\<not> (isNaN (parseInt (drop 2 argv ! 1)) \<or> num_lt (parseInt (drop 2 argv ! 1)) (Fin 1))"
    using assms parseArgs_bad_round [OF nohelp len nonblank] by fastforce
  then show r1: "\<not> isNaN (parseInt (drop 2 argv ! 1))"
    and r2: "\<not> num_lt (parseInt (drop 2 argv ! 1)) (Fin 1)" by simp_all
  note eq = parseArgs_flags [OF nohelp len nonblank r1 r2]
  obtain t' res where pf: "parseFlags (drop 2 (drop 2 argv))
       (initial_options (drop 2 argv ! 0) (parseInt (drop 2 argv ! 1))) = (t', res)"
    by (cases "parseFlags (drop 2 (drop 2 argv))
       (initial_options (drop 2 argv ! 0) (parseInt (drop 2 argv ! 1)))")
  from assms eq pf obtain opts' where res: "res = Inr opts'"
    by (cases res) auto
  with pf parseFlags_Inr_trace have t': "t' = []" by blast
  from assms eq pf res t' have *: "opts' = opts \<and> t = [] \<and>
      \<not> (stdout opts \<and> truthy (output_opt opts)) \<and> \<not> (quiet opts \<and> \<not> stdout opts)"
    by (auto split: if_splits)
  then show "t = []" "\<not> (stdout opts \<and> truthy (output_opt opts))"
    "\<not> (quiet opts \<and> \<not> stdout opts)" by simp_all
  from pf res t' * show "parseFlags (drop 2 (drop 2 argv))
       (initial_options (drop 2 argv ! 0) (parseInt (drop 2 argv ! 1))) = ([], Inr opts)"
    by simp
qed

lemma main_exit: "parseArgs argv = (t, Inl c) \<Longrightarrow> main env argv = (t, Exited c)"
  by (simp add: main_def)

text \<open>\<open>parseArgs\<close> on an argument vector that has both positionals, as one equation.\<close>

lemma parseArgs_positionals:
  "parseArgs (a0 # a1 # txt # rnd # flags) =
     (if helpRequested (txt # rnd # flags) then (showHelp, Inl 0)
      else if blank txt then
        ([console_error (CROSS_MARK @ js '' Error: Text cannot be empty'')], Inl 1)
      else if isNaN (parseInt rnd) \<or> num_lt (parseInt rnd) (Fin 1) then
        ([console_error (CROSS_MARK @ js '' Error: Round must be a positive integer'')], Inl 1)
      else
        (case parseFlags flags (initial_options txt (parseInt rnd)) of
           (t, Inl code) \<Rightarrow> (t, Inl code)
         | (t, Inr opts) \<Rightarrow>
             if stdout opts \<and> truthy (output_opt opts) then
               (t @ [console_error (CROSS_MARK @ js '' Error: Cannot use both --stdout and --output'')], Inl 1)
             else if quiet opts \<and> \<not> stdout opts then
               (t @ [console_error (CROSS_MARK @ js '' Error: --quiet can only be used with --stdout'')], Inl 1)
             else (t, Inr opts)))"
proof -
  let ?argv = "a0 # a1 # txt # rnd # flags"
  have args: "drop 2 ?argv = txt # rnd # flags" by simp
  have len: "2 \<le> length (drop 2 ?argv)" by simp
  have nth: "drop 2 ?argv ! 0 = txt" "drop 2 ?argv ! 1 = rnd" "drop 2 (drop 2 ?argv) = flags"
    by simp_all
  show ?thesis
  proof (cases "helpRequested (txt # rnd # flags)")
    case True
    then show ?thesis using parseArgs_help [of ?argv] by (simp only: args if_True)
  next
    case nohelp: False
    then have nohelp': "\<not> helpRequested (drop 2 ?argv)" unfolding args .
    show ?thesis
    proof (cases "blank txt")
      case True
      then show ?thesis
        using parseArgs_blank [OF nohelp' len] nohelp by (simp only: nth if_True if_False)
    next
      case nonblank: False
      then have nonblank': "\<not> blank (drop 2 ?argv ! 0)" unfolding nth .
      show ?thesis
      proof (cases "isNaN (parseInt rnd) \<or> num_lt (parseInt rnd) (Fin 1)")
        case True
        then show ?thesis
          using parseArgs_bad_round [OF nohelp' len nonblank'] nohelp nonblank
          by (simp only: nth if_True if_False)
      next
        case False
        then have "\<not> isNaN (parseInt rnd)" "\<not> num_lt (parseInt rnd) (Fin 1)"
          by blast+
        then have "\<not> isNaN (parseInt (drop 2 ?argv ! 1))"
          "\<not> num_lt (parseInt (drop 2 ?argv ! 1)) (Fin 1)" unfolding nth .
        from parseArgs_flags [OF nohelp' len nonblank' this] False nohelp nonblank
        show ?thesis by (simp only: nth if_True if_False)
      qed
    qed
  qed
qed

lemmas eval_parseInt =
  parseInt_def js_def isWhiteSpace_def radixDigit_def digitValue_def mathInt_def toNumber_def

lemma parse_hello_quiet:
  "parseArgs (cli [''Hello'', ''100'', ''--stdout'', ''--quiet'']) =
     ([], Inr \<lparr>text_opt = js ''Hello'', round_opt = Fin 100, output_opt = None, testnet = False,
               verbose = False, stdout = True, quiet = True\<rparr>)"
proof -
  have "parseInt (js ''100'') = Fin 100" by (simp add: eval_parseInt)
  moreover have "\<not> blank (js ''Hello'')" by (simp add: blank_def trim_def js_def isWhiteSpace_def)
  ultimately show ?thesis
    by (simp add: cli_def parseArgs_positionals helpRequested_def isNaN_def truthy_def)
qed

subsection \<open>Quiet streaming\<close>

lemma encryptText_quiet_stdout:
  assumes "quiet opts" "stdout opts"
  shows "encryptText env opts =
    (case timelockEncrypt env (round_opt opts) (Utf8 (text_opt opts)) (clientOf opts) of
       Inl e \<Rightarrow> ([EncryptCall (round_opt opts) (Utf8 (text_opt opts)) (clientOf opts)], Inl e)
     | Inr a \<Rightarrow> ([EncryptCall (round_opt opts) (Utf8 (text_opt opts)) (clientOf opts), StdoutWrite a],
                Inr \<lparr>encrypted = a, filename = None\<rparr>))"
  using assms
  by (simp add: encryptText_def announce_def reportFailure_def successLine_def streamOut_def
      clientOf_def Let_def
      split: sum.splits)

lemma main_quiet:
  assumes "parseArgs argv = (t, Inr opts)" "quiet opts"
  shows "fst (main env argv) = fst (encryptText env opts)"
proof -
  have "t = []" using assms(1) by (rule parseArgs_returns(1))
  with assms show ?thesis
    by (simp add: main_def catchBlock_def banner_def farewell_def split: prod.splits sum.splits)
qed

text \<open>
  C1. For every invocation whose parse returns options with \<open>stdout\<close> and \<open>quiet\<close>
  both set, the program writes to standard output exactly once, and what it writes is the
  artifact the encryption primitive returned, nothing before or after it; when the
  primitive fails, nothing at all is written to standard output.
\<close>

theorem quiet_stdout_writes_only_artifact:
  assumes "parseArgs argv = (t, Inr opts)" "stdout opts" "quiet opts"
  shows "stdout_writes (fst (main env argv)) =
    (case timelockEncrypt env (round_opt opts) (Utf8 (text_opt opts)) (clientOf opts) of
       Inr artifact \<Rightarrow> [artifact] | Inl e \<Rightarrow> []) \<and>
    stdout_bytes (fst (main env argv)) =
    (case timelockEncrypt env (round_opt opts) (Utf8 (text_opt opts)) (clientOf opts) of
       Inr artifact \<Rightarrow> artifact | Inl e \<Rightarrow> [])"
  unfolding main_quiet [OF assms(1,3)] encryptText_quiet_stdout [OF assms(3,2)]
  by (simp add: stdout_bytes_def stdout_writes_def split: sum.splits)

theorem quiet_stdout_writes_only_artifact_witness:
  "stdout_writes (fst (main (mockEnv (Inr quicknetInfo) (Inr (js ''age-encryption.org/v1'')))
       (cli [''Hello'', ''100'', ''--stdout'', ''--quiet'']))) = [js ''age-encryption.org/v1''] \<and>
   stdout_bytes (fst (main (mockEnv (Inr quicknetInfo) (Inr (js ''age-encryption.org/v1'')))
       (cli [''Hello'', ''100'', ''--stdout'', ''--quiet'']))) = js ''age-encryption.org/v1''"
  using quiet_stdout_writes_only_artifact [OF parse_hello_quiet,
      of "mockEnv (Inr quicknetInfo) (Inr (js ''age-encryption.org/v1''))"]
  by (simp add: mockEnv_def)

subsection \<open>The trace of a parsed invocation\<close>

lemma main_parsed:
  assumes "parseArgs argv = (t, Inr opts)"
  shows "main env argv =
    (case encryptText env opts of
       (t2, Inr res) \<Rightarrow> (banner opts @ t2 @ farewell opts, Resolved)
     | (t2, Inl error) \<Rightarrow>
         (banner opts @ t2, Rejected (ReferenceError (js ''options is not defined''))))"
proof -
  have "t = []" using assms by (rule parseArgs_returns(1))
  with assms show ?thesis by (simp add: main_def catchBlock_def)
qed

lemma encryptText_failure:
  assumes "timelockEncrypt env (round_opt opts) (Utf8 (text_opt opts)) (clientOf opts) = Inl e"
  shows "encryptText env opts =
    (announce env opts @ [EncryptCall (round_opt opts) (Utf8 (text_opt opts)) (clientOf opts)] @
     reportFailure env opts e, Inl e)"
  using assms by (simp add: encryptText_def clientOf_def Let_def)

lemma encryptText_stdout:
  assumes "timelockEncrypt env (round_opt opts) (Utf8 (text_opt opts)) (clientOf opts) = Inr a"
    and "stdout opts"
  shows "encryptText env opts =
    (announce env opts @ [EncryptCall (round_opt opts) (Utf8 (text_opt opts)) (clientOf opts)] @
     successLine opts @ streamOut opts a, Inr \<lparr>encrypted = a, filename = None\<rparr>)"
  using assms by (simp add: encryptText_def clientOf_def Let_def)

lemma encryptText_file:
  assumes "timelockEncrypt env (round_opt opts) (Utf8 (text_opt opts)) (clientOf opts) = Inr a"
    and "\<not> stdout opts"
  shows "encryptText env opts =
    (case writeFileSync env (orElse (output_opt opts) (generatedFilename env opts)) a of
       Some error \<Rightarrow>
         (announce env opts @ [EncryptCall (round_opt opts) (Utf8 (text_opt opts)) (clientOf opts)] @
          successLine opts @ [WriteFileCall (orElse (output_opt opts) (generatedFilename env opts)) a] @
          reportFailure env opts error, Inl error)
     | None \<Rightarrow>
         (announce env opts @ [EncryptCall (round_opt opts) (Utf8 (text_opt opts)) (clientOf opts)] @
          successLine opts @ [WriteFileCall (orElse (output_opt opts) (generatedFilename env opts)) a] @
          savedReport env opts (orElse (output_opt opts) (generatedFilename env opts)) a,
          Inr \<lparr>encrypted = a,
               filename = Some (orElse (output_opt opts) (js ''auto-generated''))\<rparr>))"
  using assms by (simp add: encryptText_def clientOf_def Let_def split: option.splits)

text \<open>What each block contributes to the three channels.\<close>

lemma stdout_writes_append [simp]:
  "stdout_writes (xs @ ys) = stdout_writes xs @ stdout_writes ys"
  by (simp add: stdout_writes_def)

lemma stderr_writes_append [simp]:
  "stderr_writes (xs @ ys) = stderr_writes xs @ stderr_writes ys"
  by (simp add: stderr_writes_def)

lemma file_writes_append [simp]:
  "file_writes (xs @ ys) = file_writes xs @ file_writes ys"
  by (simp add: file_writes_def)

lemma network_calls_append [simp]:
  "network_calls (xs @ ys) = network_calls xs @ network_calls ys"
  by (simp add: network_calls_def)

lemma channels_Cons [simp]:
  "stdout_writes (StdoutWrite s # t) = s # stdout_writes t"
  "stdout_writes (StderrWrite s # t) = stdout_writes t"
  "stdout_writes (ChainInfoCall c # t) = stdout_writes t"
  "stdout_writes (EncryptCall r b c # t) = stdout_writes t"
  "stdout_writes (WriteFileCall f s # t) = stdout_writes t"
  "stdout_writes (console_log s # t) = line s # stdout_writes t"
  "stdout_writes (console_error s # t) = stdout_writes t"
  "stdout_writes (console_error2 s s' # t) = stdout_writes t"
  "stdout_writes [] = []"
  by (simp_all add: stdout_writes_def console_log_def console_error_def console_error2_def line_def)

lemma stderr_Cons [simp]:
  "stderr_writes (StdoutWrite s # t) = stderr_writes t"
  "stderr_writes (StderrWrite s # t) = s # stderr_writes t"
  "stderr_writes (ChainInfoCall c # t) = stderr_writes t"
  "stderr_writes (EncryptCall r b c # t) = stderr_writes t"
  "stderr_writes (WriteFileCall f s # t) = stderr_writes t"
  "stderr_writes (console_log s # t) = stderr_writes t"
  "stderr_writes (console_error s # t) = line s # stderr_writes t"
  "stderr_writes (console_error2 s s' # t) = line (s @ js '' '' @ s') # stderr_writes t"
  "stderr_writes [] = []"
  by (simp_all add: stderr_writes_def console_log_def console_error_def console_error2_def line_def)

lemma file_writes_Cons [simp]:
  "file_writes (StdoutWrite s # t) = file_writes t"
  "file_writes (StderrWrite s # t) = file_writes t"
  "file_writes (ChainInfoCall c # t) = file_writes t"
  "file_writes (EncryptCall r b c # t) = file_writes t"
  "file_writes (WriteFileCall f s # t) = (f, s) # file_writes t"
  "file_writes (console_log s # t) = file_writes t"
  "file_writes (console_error s # t) = file_writes t"
  "file_writes (console_error2 s s' # t) = file_writes t"
  "file_writes [] = []"
  by (simp_all add: file_writes_def console_log_def console_error_def console_error2_def)

lemma network_calls_Cons [simp]:
  "network_calls (StdoutWrite s # t) = network_calls t"
  "network_calls (StderrWrite s # t) = network_calls t"
  "network_calls (ChainInfoCall c # t) = ChainInfoCall c # network_calls t"
  "network_calls (EncryptCall r b c # t) = EncryptCall r b c # network_calls t"
  "network_calls (WriteFileCall f s # t) = network_calls t"
  "network_calls (console_log s # t) = network_calls t"
  "network_calls (console_error s # t) = network_calls t"
  "network_calls (console_error2 s s' # t) = network_calls t"
  "network_calls [] = []"
  by (simp_all add: network_calls_def is_network_def console_log_def console_error_def
      console_error2_def)

lemma quiet_blocks [simp]:
  "quiet opts \<Longrightarrow> banner opts = []"
  "quiet opts \<Longrightarrow> farewell opts = []"
  "quiet opts \<Longrightarrow> announce env opts = []"
  "quiet opts \<Longrightarrow> successLine opts = []"
  "quiet opts \<Longrightarrow> reportFailure env opts e = []"
  "quiet opts \<Longrightarrow> streamOut opts a = [StdoutWrite a]"
  "quiet opts \<Longrightarrow> savedReport env opts f a = []"
  by (simp_all add: banner_def farewell_def announce_def successLine_def reportFailure_def
      streamOut_def savedReport_def Let_def)

lemma blocks_file_writes [simp]:
  "file_writes (banner opts) = []"
  "file_writes (farewell opts) = []"
  "file_writes (announce env opts) = []"
  "file_writes (successLine opts) = []"
  "file_writes (reportFailure env opts e) = []"
  "file_writes (streamOut opts a) = []"
  "file_writes (savedReport env opts f a) = []"
  by (simp_all add: banner_def farewell_def announce_def successLine_def reportFailure_def
      streamOut_def savedReport_def Let_def split: sum.splits)

lemma blocks_stderr_writes [simp]:
  "stderr_writes (banner opts) = []"
  "stderr_writes (farewell opts) = []"
  "stderr_writes (announce env opts) = []"
  "stderr_writes (successLine opts) = []"
  "stderr_writes (streamOut opts a) = []"
  "stderr_writes (savedReport env opts f a) = []"
  by (simp_all add: banner_def farewell_def announce_def successLine_def
      streamOut_def savedReport_def Let_def split: sum.splits)

lemma blocks_network_calls [simp]:
  "network_calls (banner opts) = []"
  "network_calls (farewell opts) = []"
  "network_calls (successLine opts) = []"
  "network_calls (reportFailure env opts e) = []"
  "network_calls (streamOut opts a) = []"
  "network_calls (savedReport env opts f a) = []"
  by (simp_all add: banner_def farewell_def successLine_def reportFailure_def
      streamOut_def savedReport_def)

subsection \<open>Streaming without \<open>quiet\<close>\<close>

lemma length_line [simp]: "length (line s) = Suc (length s)"
  by (simp add: line_def newline_def)

text \<open>
  C10. For every invocation whose parse returns options with \<open>stdout\<close> set and \<open>quiet\<close>
  not set, and whose encryption succeeds, standard output receives, through
  \<open>console.log\<close>, the banner, the progress report, a header and a separator line before
  the artifact, and a separator and the closing report after it; so the bytes on standard
  output differ from the artifact. With C1: they equal the artifact only under \<open>quiet\<close>.
\<close>

theorem stdout_without_quiet_wraps_artifact:
  assumes "parseArgs argv = (t, Inr opts)" "stdout opts" "\<not> quiet opts"
    and "timelockEncrypt env (round_opt opts) (Utf8 (text_opt opts)) (clientOf opts) = Inr artifact"
  shows "stdout_writes (fst (main env argv)) =
      [line (ROCKET @ js '' TLOCK-JS CLI Encryption Tool''),
       line (js ''================================'' @ newline)] @
      stdout_writes (announce env opts) @
      [line (CHECK_MARK @ js '' Encryption successful!''),
       line (OUTBOX_TRAY @ js '' Outputting encrypted content to stdout:''),
       line (concat (replicate 50 BOX_LINE)),
       artifact,
       line (concat (replicate 50 (newline @ BOX_LINE))),
       line (newline @ PARTY_POPPER @ js '' Done! Encrypted content output to stdout.''),
       line (newline @ LIGHT_BULB @ js '' You can pipe this output to other tools or save to file.''),
       line (newline @ LIGHT_BULB @ js '' To decrypt later, use:''),
       line (js ''   const decrypted = await timelockDecrypt(encryptedContent, client);'')] \<and>
    stdout_bytes (fst (main env argv)) \<noteq> artifact"
proof -
  have writes: "stdout_writes (fst (main env argv)) =
      [line (ROCKET @ js '' TLOCK-JS CLI Encryption Tool''),
       line (js ''================================'' @ newline)] @
      stdout_writes (announce env opts) @
      [line (CHECK_MARK @ js '' Encryption successful!''),
       line (OUTBOX_TRAY @ js '' Outputting encrypted content to stdout:''),
       line (concat (replicate 50 BOX_LINE)),
       artifact,
       line (concat (replicate 50 (newline @ BOX_LINE))),
       line (newline @ PARTY_POPPER @ js '' Done! Encrypted content output to stdout.''),
       line (newline @ LIGHT_BULB @ js '' You can pipe this output to other tools or save to file.''),
       line (newline @ LIGHT_BULB @ js '' To decrypt later, use:''),
       line (js ''   const decrypted = await timelockDecrypt(encryptedContent, client);'')]"
    unfolding main_parsed [OF assms(1)] encryptText_stdout [OF assms(4,2)]
    using assms(2,3)
    by (simp add: banner_def farewell_def successLine_def streamOut_def)
  have "length artifact < length (stdout_bytes (fst (main env argv)))"
    unfolding stdout_bytes_def writes by simp
  then have "stdout_bytes (fst (main env argv)) \<noteq> artifact" by auto
  with writes show ?thesis by blast
qed


lemma parseInt_100: "parseInt (js ''100'') = Fin 100"
  by (simp add: eval_parseInt)

lemma not_blank_Hello: "\<not> blank (js ''Hello'')"
  by (simp add: blank_def trim_def js_def isWhiteSpace_def)

lemma numberToString_100: "numberToString env (Fin 100) = js ''100''"
  by (simp add: numberToString_def digits.simps js_def)

lemma parse_hello_stdout:
  "parseArgs (cli [''Hello'', ''100'', ''--stdout'']) =
     ([], Inr \<lparr>text_opt = js ''Hello'', round_opt = Fin 100, output_opt = None, testnet = False,
               verbose = False, stdout = True, quiet = False\<rparr>)"
  using parseInt_100 not_blank_Hello
  by (simp add: cli_def parseArgs_positionals helpRequested_def isNaN_def truthy_def)

theorem stdout_without_quiet_wraps_artifact_witness:
  "stdout_writes (fst (main (mockEnv (Inr quicknetInfo) (Inr (js ''age-encryption.org/v1'')))
       (cli [''Hello'', ''100'', ''--stdout'']))) =
      [line (ROCKET @ js '' TLOCK-JS CLI Encryption Tool''),
       line (js ''================================'' @ newline),
       line (LOCK_WITH_KEY @ js '' Encrypting: '' @ dquote @ js ''Hello'' @ dquote),
       line (DIRECT_HIT @ js '' Target round: 100''),
       line (CHECK_MARK @ js '' Encryption successful!''),
       line (OUTBOX_TRAY @ js '' Outputting encrypted content to stdout:''),
       line (concat (replicate 50 BOX_LINE)),
       js ''age-encryption.org/v1'',
       line (concat (replicate 50 (newline @ BOX_LINE))),
       line (newline @ PARTY_POPPER @ js '' Done! Encrypted content output to stdout.''),
       line (newline @ LIGHT_BULB @ js '' You can pipe this output to other tools or save to file.''),
       line (newline @ LIGHT_BULB @ js '' To decrypt later, use:''),
       line (js ''   const decrypted = await timelockDecrypt(encryptedContent, client);'')] \<and>
   stdout_bytes (fst (main (mockEnv (Inr quicknetInfo) (Inr (js ''age-encryption.org/v1'')))
       (cli [''Hello'', ''100'', ''--stdout'']))) \<noteq> js ''age-encryption.org/v1''"
proof -
  have "js '' Target round: '' @ js ''100'' = js '' Target round: 100''"
    by (simp add: js_def)
  then show ?thesis
    using stdout_without_quiet_wraps_artifact [OF parse_hello_stdout,
      of "mockEnv (Inr quicknetInfo) (Inr (js ''age-encryption.org/v1''))" "js ''age-encryption.org/v1''"]
    by (simp add: mockEnv_def announce_def numberToString_100)
qed

subsection \<open>The diagnostic query\<close>

text \<open>
  C7. For every invocation whose parse returns options with \<open>verbose\<close> set and \<open>quiet\<close>
  not set: when the chain-info query fails, the failure is printed as a warning line with
  its message, and the encryption call is the very next event; the two calls are the only
  network calls of the run, and how the run ends is decided by the encryption call and
  the output sink alone.
\<close>

theorem chain_info_failure_is_not_fatal:
  assumes "parseArgs argv = (t, Inr opts)" "verbose opts" "\<not> quiet opts"
    and "chain_info env (clientOf opts) = Inl e"
  shows "(\<exists>rest. fst (main env argv) =
        [console_log (ROCKET @ js '' TLOCK-JS CLI Encryption Tool''),
         console_log (js ''================================'' @ newline),
         console_log (LOCK_WITH_KEY @ js '' Encrypting text for '' @
            (if testnet opts then js ''testnet'' else js ''mainnet (quicknet)'')),
         console_log (MEMO @ js '' Text: '' @ dquote @ text_opt opts @ dquote),
         console_log (DIRECT_HIT @ js '' Round: '' @ numberToString env (round_opt opts)),
         console_log (GLOBE @ js '' Network: '' @
            (if testnet opts then js ''testnet'' else js ''mainnet (quicknet)'')),
         ChainInfoCall (clientOf opts),
         console_log (WARNING_SIGN @ js ''  Could not fetch chain info: '' @ message e),
         EncryptCall (round_opt opts) (Utf8 (text_opt opts)) (clientOf opts)] @ rest) \<and>
    network_calls (fst (main env argv)) =
      [ChainInfoCall (clientOf opts),
       EncryptCall (round_opt opts) (Utf8 (text_opt opts)) (clientOf opts)] \<and>
    snd (main env argv) =
      (case timelockEncrypt env (round_opt opts) (Utf8 (text_opt opts)) (clientOf opts) of
         Inl error \<Rightarrow> Rejected (ReferenceError (js ''options is not defined''))
       | Inr artifact \<Rightarrow>
           if stdout opts then Resolved
           else (case writeFileSync env (orElse (output_opt opts) (generatedFilename env opts)) artifact of
                   None \<Rightarrow> Resolved
                 | Some error \<Rightarrow> Rejected (ReferenceError (js ''options is not defined''))))"
proof -
  have ann: "announce env opts =
        [console_log (LOCK_WITH_KEY @ js '' Encrypting text for '' @
            (if testnet opts then js ''testnet'' else js ''mainnet (quicknet)'')),
         console_log (MEMO @ js '' Text: '' @ dquote @ text_opt opts @ dquote),
         console_log (DIRECT_HIT @ js '' Round: '' @ numberToString env (round_opt opts)),
         console_log (GLOBE @ js '' Network: '' @
            (if testnet opts then js ''testnet'' else js ''mainnet (quicknet)'')),
         ChainInfoCall (clientOf opts),
         console_log (WARNING_SIGN @ js ''  Could not fetch chain info: '' @ message e)]"
    using assms(2,3,4) by (simp add: announce_def clientOf_def Let_def)
  have ban: "banner opts =
        [console_log (ROCKET @ js '' TLOCK-JS CLI Encryption Tool''),
         console_log (js ''================================'' @ newline)]"
    using assms(3) by (simp add: banner_def)
  show ?thesis
  proof (cases "timelockEncrypt env (round_opt opts) (Utf8 (text_opt opts)) (clientOf opts)")
    case (Inl error)
    show ?thesis
      unfolding main_parsed [OF assms(1)] encryptText_failure [OF Inl] Inl
      by (simp add: ann ban)
  next
    case (Inr artifact)
    show ?thesis
    proof (cases "stdout opts")
      case True
      show ?thesis
        unfolding main_parsed [OF assms(1)] encryptText_stdout [OF Inr True] Inr
        using True by (simp add: ann ban)
    next
      case False
      show ?thesis
        unfolding main_parsed [OF assms(1)] encryptText_file [OF Inr False] Inr
        using False by (simp add: ann ban split: option.splits)
    qed
  qed
qed

lemma parse_hello_verbose:
  "parseArgs (cli [''Hello'', ''100'', ''--verbose'', ''--stdout'']) =
     ([], Inr \<lparr>text_opt = js ''Hello'', round_opt = Fin 100, output_opt = None, testnet = False,
               verbose = True, stdout = True, quiet = False\<rparr>)"
  using parseInt_100 not_blank_Hello
  by (simp add: cli_def parseArgs_positionals helpRequested_def isNaN_def truthy_def)

theorem chain_info_failure_is_not_fatal_witness:
  "network_calls (fst (main (mockEnv (Inl (Error (js ''fetch failed''))) (Inr (js ''age-encryption.org/v1'')))
       (cli [''Hello'', ''100'', ''--verbose'', ''--stdout'']))) =
     [ChainInfoCall Mainnet, EncryptCall (Fin 100) (Utf8 (js ''Hello'')) Mainnet] \<and>
   snd (main (mockEnv (Inl (Error (js ''fetch failed''))) (Inr (js ''age-encryption.org/v1'')))
       (cli [''Hello'', ''100'', ''--verbose'', ''--stdout''])) = Resolved \<and>
   console_log (WARNING_SIGN @ js ''  Could not fetch chain info: '' @ js ''fetch failed'')
     \<in> set (fst (main (mockEnv (Inl (Error (js ''fetch failed''))) (Inr (js ''age-encryption.org/v1'')))
       (cli [''Hello'', ''100'', ''--verbose'', ''--stdout''])))"
  using chain_info_failure_is_not_fatal [OF parse_hello_verbose,
      of "mockEnv (Inl (Error (js ''fetch failed''))) (Inr (js ''age-encryption.org/v1''))"
         "Error (js ''fetch failed'')"]
  by (auto simp: mockEnv_def clientOf_def)

subsection \<open>Text validation\<close>

lemma trim_eq_Nil_iff: "trim s = [] \<longleftrightarrow> (\<forall>c\<in>set s. isWhiteSpace c)"
proof
  assume "trim s = []"
  then have all: "\<forall>c\<in>set (dropWhile isWhiteSpace s). isWhiteSpace c"
    by (simp add: trim_def dropWhile_eq_Nil_conv)
  have "dropWhile isWhiteSpace s = []"
  proof (rule ccontr)
    assume ne: "dropWhile isWhiteSpace s \<noteq> []"
    then have "\<not> isWhiteSpace (hd (dropWhile isWhiteSpace s))" by (rule hd_dropWhile)
    moreover have "hd (dropWhile isWhiteSpace s) \<in> set (dropWhile isWhiteSpace s)"
      using ne by (rule hd_in_set)
    ultimately show False using all by blast
  qed
  then show "\<forall>c\<in>set s. isWhiteSpace c" by (simp add: dropWhile_eq_Nil_conv)
next
  assume "\<forall>c\<in>set s. isWhiteSpace c"
  then have h: "dropWhile isWhiteSpace s = []" by (simp add: dropWhile_eq_Nil_conv)
  show "trim s = []" unfolding trim_def h by simp
qed

lemma blank_iff: "blank s \<longleftrightarrow> trim s = []"
  by (auto simp: blank_def trim_def)

lemma encryptText_example_blank:
  assumes "blank txt"
  shows "\<exists>msg. encryptText_example env txt r c = ([], Inl (Error msg))"
  using assms by (simp add: encryptText_example_def blank_def)

lemma encryptText_example_calls:
  assumes "\<not> blank txt" "\<not> num_lt r (Fin 1)"
  shows "EncryptCall r (Utf8 txt) c \<in> set (fst (encryptText_example env txt r c))"
  using assms by (simp add: encryptText_example_def blank_def Let_def split: sum.splits)

text \<open>
  C9. The text test of the program, \<open>!text || text.trim().length === 0\<close>, rejects
  a string exactly when nothing is left of it after trimming, that is when it is empty or
  all whitespace. In the command-line tool a rejected text ends the process with status 1
  and the message that the text cannot be empty, with no other event, and the text of
  every returned options object passed the test; with a non-blank text and a valid round
  and no flags, the parse returns. In the example module a rejected text makes
  \<open>encryptText\<close> throw before any event, and an accepted text (with a round that is
  not below 1) reaches the encryption call.
\<close>

theorem text_validation:
  "(\<not> blank s \<longleftrightarrow> trim s \<noteq> []) \<and>
   (blank s \<longleftrightarrow> (\<forall>c\<in>set s. isWhiteSpace c)) \<and>
   (\<not> helpRequested (drop 2 argv) \<and> 2 \<le> length (drop 2 argv) \<and> blank (drop 2 argv ! 0) \<longrightarrow>
      main env argv = ([console_error (CROSS_MARK @ js '' Error: Text cannot be empty'')], Exited 1)) \<and>
   (parseArgs argv = (t, Inr opts) \<longrightarrow>
      text_opt opts = drop 2 argv ! 0 \<and> \<not> blank (text_opt opts)) \<and>
   (\<not> helpRequested [s, rnd] \<and> \<not> blank s \<and> \<not> isNaN (parseInt rnd) \<and>
    \<not> num_lt (parseInt rnd) (Fin 1) \<longrightarrow>
      parseArgs [node, script, s, rnd] = ([], Inr (initial_options s (parseInt rnd)))) \<and>
   (blank s \<longrightarrow> (\<exists>msg. encryptText_example env s r c = ([], Inl (Error msg)))) \<and>
   (\<not> blank s \<and> \<not> num_lt r (Fin 1) \<longrightarrow>
      EncryptCall r (Utf8 s) c \<in> set (fst (encryptText_example env s r c)))"
proof -
  have 1: "\<not> blank s \<longleftrightarrow> trim s \<noteq> []" by (simp add: blank_iff)
  have 2: "blank s \<longleftrightarrow> (\<forall>c\<in>set s. isWhiteSpace c)"
    by (simp only: blank_iff trim_eq_Nil_iff)
  have 3: "\<not> helpRequested (drop 2 argv) \<and> 2 \<le> length (drop 2 argv) \<and> blank (drop 2 argv ! 0) \<longrightarrow>
      main env argv = ([console_error (CROSS_MARK @ js '' Error: Text cannot be empty'')], Exited 1)"
    using parseArgs_blank main_exit by blast
  have 4: "parseArgs argv = (t, Inr opts) \<longrightarrow>
      text_opt opts = drop 2 argv ! 0 \<and> \<not> blank (text_opt opts)"
  proof
    assume p: "parseArgs argv = (t, Inr opts)"
    from parseFlags_text [OF parseArgs_returns(7) [OF p]]
    have "text_opt opts = drop 2 argv ! 0" by simp
    with parseArgs_returns(4) [OF p]
    show "text_opt opts = drop 2 argv ! 0 \<and> \<not> blank (text_opt opts)" by simp
  qed
  have 5: "\<not> helpRequested [s, rnd] \<and> \<not> blank s \<and> \<not> isNaN (parseInt rnd) \<and>
    \<not> num_lt (parseInt rnd) (Fin 1) \<longrightarrow>
      parseArgs [node, script, s, rnd] = ([], Inr (initial_options s (parseInt rnd)))"
    by (simp add: parseArgs_positionals truthy_def)
  from 1 2 3 4 5 encryptText_example_blank encryptText_example_calls show ?thesis
    by blast
qed


lemma blank_spaces: "blank (js ''   '')"
  by (simp add: blank_def trim_def js_def isWhiteSpace_def)

theorem text_validation_witness:
  "blank (js ''   '') \<and> \<not> blank (js ''Hello'') \<and>
   main (mockEnv (Inr quicknetInfo) (Inr (js ''age-encryption.org/v1''))) (cli [''   '', ''100'']) =
     ([console_error (CROSS_MARK @ js '' Error: Text cannot be empty'')], Exited 1) \<and>
   parseArgs (cli [''Hello'', ''100'']) = ([], Inr (initial_options (js ''Hello'') (Fin 100))) \<and>
   (\<exists>msg. encryptText_example (mockEnv (Inr quicknetInfo) (Inr (js ''age-encryption.org/v1'')))
      (js ''   '') (Fin 100) Mainnet = ([], Inl (Error msg))) \<and>
   EncryptCall (Fin 100) (Utf8 (js ''Hello'')) Mainnet \<in>
     set (fst (encryptText_example (mockEnv (Inr quicknetInfo) (Inr (js ''age-encryption.org/v1'')))
      (js ''Hello'') (Fin 100) Mainnet))"
proof -
  let ?env = "mockEnv (Inr quicknetInfo) (Inr (js ''age-encryption.org/v1''))"
  have args: "drop 2 (cli [''   '', ''100'']) = [js ''   '', js ''100'']"
    by (simp add: cli_def)
  have nohelp: "\<not> helpRequested [js ''   '', js ''100'']" "\<not> helpRequested [js ''Hello'', js ''100'']"
    by (simp_all add: helpRequested_def)
  have c: "cli [''Hello'', ''100''] = [js ''node'', js ''examples/cli-encrypt.js'', js ''Hello'', js ''100'']"
    by (simp add: cli_def)
  have r: "\<not> isNaN (parseInt (js ''100''))" "\<not> num_lt (parseInt (js ''100'')) (Fin 1)"
    by (simp_all add: parseInt_100 isNaN_def)
  show ?thesis
    using text_validation [where s = "js ''   ''" and argv = "cli [''   '', ''100'']"
        and env = "?env" and r = "Fin 100" and c = Mainnet]
      text_validation [where s = "js ''Hello''" and rnd = "js ''100''" and node = "js ''node''"
        and script = "js ''examples/cli-encrypt.js''" and env = "?env" and r = "Fin 100" and c = Mainnet]
      blank_spaces not_blank_Hello nohelp r
    unfolding args c
    by (simp add: parseInt_100)
qed

subsection \<open>The round token of the command line\<close>

lemma toNumber_cases: "isInteger (toNumber i) \<or> toNumber i = PosInf \<or> toNumber i = NegInf"
  by (simp add: toNumber_def Let_def)

lemma parseInt_cases: "parseInt s = NaN \<or> (\<exists>i. parseInt s = toNumber i)"
proof (cases "parseInt s = NaN")
  case False
  then have "\<exists>i. parseInt s = toNumber i"
    unfolding parseInt_def Let_def by (metis (full_types))
  then show ?thesis ..
qed simp

lemma parseInt_accepted:
  assumes "\<not> isNaN (parseInt s)" "\<not> num_lt (parseInt s) (Fin 1)"
  shows "isInteger (parseInt s) \<or> parseInt s = PosInf"
proof -
  from assms(1) parseInt_cases [of s] obtain i where i: "parseInt s = toNumber i"
    by (auto simp: isNaN_def)
  from assms(2) have "parseInt s \<noteq> NegInf" by auto
  with toNumber_cases [of i] i show ?thesis by auto
qed


text \<open>
  C3, as the code has it. The command line reads the round token with \<open>parseInt\<close> and
  tests only \<open>isNaN(round) || round < 1\<close>. When no help flag is given, both positionals
  are present and the text is not blank: a token whose \<open>parseInt\<close> value is \<open>NaN\<close> or
  below 1 ends the process with status 1 and the message that the round must be a
  positive integer, with no other event (so before any network call); every returned
  options object carries \<open>parseInt\<close> of the token as its round, a number that is not
  below 1 and is an integer or \<open>Infinity\<close>. What follows the digits of the token is
  ignored, and there is no upper bound.
\<close>

theorem cli_round_validation:
  assumes "\<not> helpRequested (drop 2 argv)" "2 \<le> length (drop 2 argv)"
    and "\<not> blank (drop 2 argv ! 0)"
  shows "(isNaN (parseInt (drop 2 argv ! 1)) \<or> num_lt (parseInt (drop 2 argv ! 1)) (Fin 1) \<longrightarrow>
      main env argv =
        ([console_error (CROSS_MARK @ js '' Error: Round must be a positive integer'')], Exited 1)) \<and>
    (\<forall>t opts. parseArgs argv = (t, Inr opts) \<longrightarrow>
      round_opt opts = parseInt (drop 2 argv ! 1) \<and> \<not> num_lt (round_opt opts) (Fin 1) \<and>
      (isInteger (round_opt opts) \<or> round_opt opts = PosInf))"
proof (intro conjI impI allI)
  assume "isNaN (parseInt (drop 2 argv ! 1)) \<or> num_lt (parseInt (drop 2 argv ! 1)) (Fin 1)"
  from parseArgs_bad_round [OF assms this]
  show "main env argv =
        ([console_error (CROSS_MARK @ js '' Error: Round must be a positive integer'')], Exited 1)"
    by (rule main_exit)
next
  fix t opts
  assume p: "parseArgs argv = (t, Inr opts)"
  from parseFlags_round [OF parseArgs_returns(7) [OF p]]
  show r: "round_opt opts = parseInt (drop 2 argv ! 1)" by simp
  from parseArgs_returns(6) [OF p] r
  show "\<not> num_lt (round_opt opts) (Fin 1)" by simp
  from parseInt_accepted [OF parseArgs_returns(5,6) [OF p]] r
  show "isInteger (round_opt opts) \<or> round_opt opts = PosInf" by simp
qed

text \<open>The claim as stated fails: a token with a fractional part is accepted, as its
  integer part, and so is a token above \<open>MAX_SAFE_INTEGER\<close>.\<close>

lemma parseInt_fraction: "parseInt (js ''3.7'') = Fin 3"
  by (simp add: eval_parseInt)

lemma parseInt_2_53: "parseInt (js ''9007199254740992'') = Fin 9007199254740992"
  by (simp add: eval_parseInt Let_def bitLength.simps)

theorem cli_round_counterexample:
  "parseArgs (cli [''Hello'', ''3.7'']) = ([], Inr (initial_options (js ''Hello'') (Fin 3))) \<and>
   parseArgs (cli [''Hello'', ''9007199254740992'']) =
     ([], Inr (initial_options (js ''Hello'') (Fin 9007199254740992))) \<and>
   num_lt MAX_SAFE_INTEGER (Fin 9007199254740992)"
  using not_blank_Hello
  by (simp add: cli_def parseArgs_positionals helpRequested_def isNaN_def truthy_def
      parseInt_fraction parseInt_2_53 MAX_SAFE_INTEGER_def)

lemma parseInt_letters: "parseInt (js ''abc'') = NaN"
  by (simp add: eval_parseInt)

lemma parseInt_zero: "parseInt (js ''0'') = Fin 0"
  by (simp add: eval_parseInt)

theorem cli_round_validation_witness:
  "main (mockEnv (Inr quicknetInfo) (Inr (js ''age-encryption.org/v1''))) (cli [''Hello'', ''abc'']) =
     ([console_error (CROSS_MARK @ js '' Error: Round must be a positive integer'')], Exited 1) \<and>
   main (mockEnv (Inr quicknetInfo) (Inr (js ''age-encryption.org/v1''))) (cli [''Hello'', ''0'']) =
     ([console_error (CROSS_MARK @ js '' Error: Round must be a positive integer'')], Exited 1) \<and>
   round_opt (initial_options (js ''Hello'') (Fin 3)) = parseInt (js ''3.7'')"
proof -
  let ?env = "mockEnv (Inr quicknetInfo) (Inr (js ''age-encryption.org/v1''))"
  have a: "drop 2 (cli [''Hello'', ''abc'']) = [js ''Hello'', js ''abc'']"
    and z: "drop 2 (cli [''Hello'', ''0'']) = [js ''Hello'', js ''0'']"
    and f: "drop 2 (cli [''Hello'', ''3.7'']) = [js ''Hello'', js ''3.7'']"
    by (simp_all add: cli_def)
  have h: "\<not> helpRequested [js ''Hello'', js ''abc'']" "\<not> helpRequested [js ''Hello'', js ''0'']"
    "\<not> helpRequested [js ''Hello'', js ''3.7'']"
    by (simp_all add: helpRequested_def)
  have p: "parseArgs (cli [''Hello'', ''3.7'']) = ([], Inr (initial_options (js ''Hello'') (Fin 3)))"
    using not_blank_Hello
    by (simp add: cli_def parseArgs_positionals helpRequested_def isNaN_def truthy_def
        parseInt_fraction)
  have 1: "main ?env (cli [''Hello'', ''abc'']) =
     ([console_error (CROSS_MARK @ js '' Error: Round must be a positive integer'')], Exited 1)"
    using cli_round_validation [where argv = "cli [''Hello'', ''abc'']" and env = "?env"]
      h(1) not_blank_Hello
    unfolding a by (simp add: parseInt_letters isNaN_def)
  have 2: "main ?env (cli [''Hello'', ''0'']) =
     ([console_error (CROSS_MARK @ js '' Error: Round must be a positive integer'')], Exited 1)"
    using cli_round_validation [where argv = "cli [''Hello'', ''0'']" and env = "?env"]
      h(2) not_blank_Hello
    unfolding z by (simp add: parseInt_zero isNaN_def)
  have "\<forall>t opts. parseArgs (cli [''Hello'', ''3.7'']) = (t, Inr opts) \<longrightarrow>
      round_opt opts = parseInt (js ''3.7'')"
    using cli_round_validation [where argv = "cli [''Hello'', ''3.7'']" and env = "?env"]
      h(3) not_blank_Hello
    unfolding f by simp
  with p have 3: "round_opt (initial_options (js ''Hello'') (Fin 3)) = parseInt (js ''3.7'')"
    by blast
  from 1 2 3 show ?thesis by blast
qed

subsection \<open>Unrecognized tokens\<close>

lemma flagTokens_Cons:
  "flagTokens (arg # rest) =
     arg # (if arg = js ''--output'' \<or> arg = js ''-o'' then flagTokens (drop 1 rest)
            else flagTokens rest)"
  by (cases rest) simp_all

lemma recognized_iff:
  "a \<in> set recognizedFlags \<longleftrightarrow>
     a = js ''--output'' \<or> a = js ''-o'' \<or> a = js ''--testnet'' \<or> a = js ''-t'' \<or>
     a = js ''--verbose'' \<or> a = js ''-v'' \<or> a = js ''--stdout'' \<or> a = js ''-s'' \<or>
     a = js ''--quiet'' \<or> a = js ''-q''"
  by (simp add: recognizedFlags_def)

lemma parseFlags_skip:
  assumes "\<not> startsWith b (js ''--'')" "b \<notin> set recognizedFlags"
  shows "parseFlags (b # rest) opts = parseFlags rest opts"
  using assms by (simp add: recognized_iff)

lemma parseFlags_unknown:
  assumes "a \<in> set (flagTokens fs)" "startsWith a (js ''--'')" "a \<notin> set recognizedFlags"
  shows "\<exists>t. parseFlags fs opts = (t, Inl 1)"
  using assms(1)
proof (induction fs opts rule: parseFlags.induct)
  case (1 opts)
  then show ?case by simp
next
  case (2 arg rest opts)
  note unknown = assms(2,3)
  show ?case
  proof (cases "arg = js ''--output'' \<or> arg = js ''-o''")
    case out: True
    show ?thesis
    proof (cases rest)
      case Nil
      with out show ?thesis by auto
    next
      case (Cons f rest')
      from out unknown have "a \<noteq> arg" by (auto simp: recognized_iff)
      with "2.prems" out Cons have "a \<in> set (flagTokens rest')" by auto
      from "2.IH"(1) [OF out Cons this] out Cons show ?thesis by auto
    qed
  next
    case notout: False
    show ?thesis
    proof (cases "arg \<in> set recognizedFlags")
      case True
      with unknown have "a \<noteq> arg" by auto
      with "2.prems" notout have mem: "a \<in> set (flagTokens rest)"
        by (simp add: flagTokens_Cons)
      from True notout consider
          (t) "arg = js ''--testnet'' \<or> arg = js ''-t''"
        | (v) "\<not> (arg = js ''--testnet'' \<or> arg = js ''-t'')" "arg = js ''--verbose'' \<or> arg = js ''-v''"
        | (s) "\<not> (arg = js ''--testnet'' \<or> arg = js ''-t'')" "\<not> (arg = js ''--verbose'' \<or> arg = js ''-v'')"
              "arg = js ''--stdout'' \<or> arg = js ''-s''"
        | (q) "\<not> (arg = js ''--testnet'' \<or> arg = js ''-t'')" "\<not> (arg = js ''--verbose'' \<or> arg = js ''-v'')"
              "\<not> (arg = js ''--stdout'' \<or> arg = js ''-s'')" "arg = js ''--quiet'' \<or> arg = js ''-q''"
        unfolding recognized_iff by blast
      then show ?thesis
      proof cases
        case t
        from "2.IH"(2) [OF notout t mem] notout t show ?thesis by auto
      next
        case v
        from "2.IH"(3) [OF notout v mem] notout v show ?thesis by auto
      next
        case s
        from "2.IH"(4) [OF notout s mem] notout s show ?thesis by auto
      next
        case q
        from "2.IH"(5) [OF notout q mem] notout q show ?thesis by auto
      qed
    next
      case unrec: False
      then have n: "\<not> (arg = js ''--testnet'' \<or> arg = js ''-t'')"
        "\<not> (arg = js ''--verbose'' \<or> arg = js ''-v'')"
        "\<not> (arg = js ''--stdout'' \<or> arg = js ''-s'')"
        "\<not> (arg = js ''--quiet'' \<or> arg = js ''-q'')"
        unfolding recognized_iff by blast+
      show ?thesis
      proof (cases "startsWith arg (js ''--'')")
        case True
        with notout n show ?thesis by auto
      next
        case False
        with unknown have "a \<noteq> arg" by auto
        with "2.prems" notout have mem: "a \<in> set (flagTokens rest)"
          by (simp add: flagTokens_Cons)
        from "2.IH"(6) [OF notout n False mem] parseFlags_skip [OF False unrec]
        show ?thesis by simp
      qed
    qed
  qed
qed


lemma main_exits_1:
  assumes "\<not> helpRequested (drop 2 argv)" "\<And>t opts. parseArgs argv \<noteq> (t, Inr opts)"
  shows "\<exists>t. main env argv = (t, Exited 1) \<and> network_calls t = [] \<and> file_writes t = []"
proof -
  obtain t res where p: "parseArgs argv = (t, res)" by (cases "parseArgs argv")
  with assms(2) obtain c where res: "res = Inl c" by (cases res) auto
  from parseArgs_exit [OF p [unfolded res]] assms(1)
  have "c = 1" "network_calls t = []" "file_writes t = []" by simp_all
  with main_exit [OF p [unfolded res], of env] show ?thesis by simp
qed

text \<open>
  C4, as the code has it. When no help flag is given, an argument vector that has, among
  the tokens the flag loop looks at, one that starts with \<open>--\<close> and is not a recognized
  flag ends the process with status 1, after console output only. A token that is not
  recognized and does not start with \<open>--\<close>, a single-dash one included, is skipped: the
  loop goes on as if it were not there.
\<close>

theorem unknown_long_flag_exits:
  assumes "\<not> helpRequested (drop 2 argv)"
    and "a \<in> set (flagTokens (drop 2 (drop 2 argv)))"
    and "startsWith a (js ''--'')" "a \<notin> set recognizedFlags"
  shows "(\<exists>t. main env argv = (t, Exited 1) \<and> network_calls t = [] \<and> file_writes t = []) \<and>
    (\<forall>b rest opts. \<not> startsWith b (js ''--'') \<and> b \<notin> set recognizedFlags \<longrightarrow>
       parseFlags (b # rest) opts = parseFlags rest opts)"
proof
  have "parseArgs argv \<noteq> (t, Inr opts)" for t opts
  proof
    assume p: "parseArgs argv = (t, Inr opts)"
    from parseFlags_unknown [OF assms(2,3,4),
        of "initial_options (drop 2 argv ! 0) (parseInt (drop 2 argv ! 1))"]
      parseArgs_returns(7) [OF p]
    show False by simp
  qed
  with assms(1) show "\<exists>t. main env argv = (t, Exited 1) \<and> network_calls t = [] \<and> file_writes t = []"
    by (rule main_exits_1)
next
  show "\<forall>b rest opts. \<not> startsWith b (js ''--'') \<and> b \<notin> set recognizedFlags \<longrightarrow>
       parseFlags (b # rest) opts = parseFlags rest opts"
    using parseFlags_skip by blast
qed

text \<open>The claim as stated fails: an unrecognized single-dash flag is silently ignored.\<close>

theorem short_flag_ignored_counterexample:
  "parseArgs (cli [''Hello'', ''100'', ''-x'']) =
     ([], Inr (initial_options (js ''Hello'') (Fin 100)))"
  using parseInt_100 not_blank_Hello
  by (simp add: cli_def parseArgs_positionals helpRequested_def isNaN_def truthy_def
      startsWith_def js_def)

theorem unknown_long_flag_exits_witness:
  "(\<exists>t. main (mockEnv (Inr quicknetInfo) (Inr (js ''age-encryption.org/v1'')))
        (cli [''Hello'', ''100'', ''--stdout'', ''--bogus'']) = (t, Exited 1) \<and>
      network_calls t = [] \<and> file_writes t = []) \<and>
   parseFlags [js ''-x'', js ''--stdout''] (initial_options (js ''Hello'') (Fin 100)) =
     parseFlags [js ''--stdout''] (initial_options (js ''Hello'') (Fin 100))"
proof -
  have h: "\<not> helpRequested (drop 2 (cli [''Hello'', ''100'', ''--stdout'', ''--bogus'']))"
    by (simp add: cli_def helpRequested_def)
  have m: "js ''--bogus'' \<in>
      set (flagTokens (drop 2 (drop 2 (cli [''Hello'', ''100'', ''--stdout'', ''--bogus'']))))"
    by (simp add: cli_def)
  have s: "startsWith (js ''--bogus'') (js ''--'')" "\<not> startsWith (js ''-x'') (js ''--'')"
    by (simp_all add: startsWith_def js_def)
  have u: "js ''--bogus'' \<notin> set recognizedFlags" "js ''-x'' \<notin> set recognizedFlags"
    by (simp_all add: recognized_iff)
  show ?thesis
    using unknown_long_flag_exits [OF h m s(1) u(1),
        of "mockEnv (Inr quicknetInfo) (Inr (js ''age-encryption.org/v1''))"] s(2) u(2)
    by blast
qed

subsection \<open>The invariants of the options\<close>

text \<open>
  C6, as the code has it. Every options object \<open>parseArgs\<close> returns has \<open>stdout\<close> unset
  or its output path falsy (\<open>null\<close> or the empty string), and has \<open>quiet\<close> set only
  together with \<open>stdout\<close>. When no help flag is given, an argument vector whose flags
  make the loop end with \<open>stdout\<close> and a non-empty output path, or with \<open>quiet\<close> and not
  \<open>stdout\<close>, ends the process with status 1 after console output only: no network call
  and no file write.
\<close>

theorem parsed_options_invariants:
  "(parseArgs argv = (t, Inr opts) \<longrightarrow>
      \<not> (stdout opts \<and> truthy (output_opt opts)) \<and> (quiet opts \<longrightarrow> stdout opts)) \<and>
   (\<not> helpRequested (drop 2 argv) \<and>
    parseFlags (drop 2 (drop 2 argv))
      (initial_options (drop 2 argv ! 0) (parseInt (drop 2 argv ! 1))) = (t', Inr opts') \<and>
    (stdout opts' \<and> truthy (output_opt opts') \<or> quiet opts' \<and> \<not> stdout opts') \<longrightarrow>
      (\<exists>t''. main env argv = (t'', Exited 1) \<and> network_calls t'' = [] \<and> file_writes t'' = []))"
proof (intro conjI impI)
  assume p: "parseArgs argv = (t, Inr opts)"
  from parseArgs_returns(8) [OF p]
  show "\<not> (stdout opts \<and> truthy (output_opt opts))" .
  from parseArgs_returns(9) [OF p]
  show "quiet opts \<Longrightarrow> stdout opts" by blast
next
  assume a: "\<not> helpRequested (drop 2 argv) \<and>
    parseFlags (drop 2 (drop 2 argv))
      (initial_options (drop 2 argv ! 0) (parseInt (drop 2 argv ! 1))) = (t', Inr opts') \<and>
    (stdout opts' \<and> truthy (output_opt opts') \<or> quiet opts' \<and> \<not> stdout opts')"
  have "parseArgs argv \<noteq> (x, Inr o')" for x o'
  proof
    assume p: "parseArgs argv = (x, Inr o')"
    from parseArgs_returns(7) [OF p] a have "o' = opts'" by simp
    with parseArgs_returns(8,9) [OF p] a show False by blast
  qed
  with a show "\<exists>t''. main env argv = (t'', Exited 1) \<and> network_calls t'' = [] \<and> file_writes t'' = []"
    by (intro main_exits_1) simp_all
qed

text \<open>The claim as stated fails: \<open>--stdout\<close> together with \<open>--output ""\<close> is accepted,
  and the options returned have both \<open>stdout\<close> and an output path, the empty string.\<close>

lemma parse_stdout_empty_output:
  "parseArgs (cli [''Hello'', ''100'', ''--stdout'', ''--output'', '''']) =
     ([], Inr \<lparr>text_opt = js ''Hello'', round_opt = Fin 100, output_opt = Some [], testnet = False,
               verbose = False, stdout = True, quiet = False\<rparr>)"
  using parseInt_100 not_blank_Hello
  by (simp add: cli_def parseArgs_positionals helpRequested_def isNaN_def truthy_def js_def)

theorem stdout_with_empty_output_counterexample:
  "parseArgs (cli [''Hello'', ''100'', ''--stdout'', ''--output'', '''']) =
     ([], Inr \<lparr>text_opt = js ''Hello'', round_opt = Fin 100, output_opt = Some [], testnet = False,
               verbose = False, stdout = True, quiet = False\<rparr>)"
  by (rule parse_stdout_empty_output)

theorem parsed_options_invariants_witness:
  "(\<exists>t. main (mockEnv (Inr quicknetInfo) (Inr (js ''age-encryption.org/v1'')))
        (cli [''Hello'', ''100'', ''--output'', ''f.age'', ''--stdout'']) = (t, Exited 1) \<and>
      network_calls t = [] \<and> file_writes t = []) \<and>
   (\<exists>t. main (mockEnv (Inr quicknetInfo) (Inr (js ''age-encryption.org/v1'')))
        (cli [''Hello'', ''100'', ''--quiet'']) = (t, Exited 1) \<and>
      network_calls t = [] \<and> file_writes t = []) \<and>
   \<not> truthy (output_opt \<lparr>text_opt = js ''Hello'', round_opt = Fin 100, output_opt = Some [],
               testnet = False, verbose = False, stdout = True, quiet = False\<rparr>)"
proof -
  let ?env = "mockEnv (Inr quicknetInfo) (Inr (js ''age-encryption.org/v1''))"
  let ?both = "cli [''Hello'', ''100'', ''--output'', ''f.age'', ''--stdout'']"
  let ?quiet = "cli [''Hello'', ''100'', ''--quiet'']"
  have b: "drop 2 ?both = [js ''Hello'', js ''100'', js ''--output'', js ''f.age'', js ''--stdout'']"
    and q: "drop 2 ?quiet = [js ''Hello'', js ''100'', js ''--quiet'']"
    by (simp_all add: cli_def)
  have h: "\<not> helpRequested [js ''Hello'', js ''100'', js ''--output'', js ''f.age'', js ''--stdout'']"
    "\<not> helpRequested [js ''Hello'', js ''100'', js ''--quiet'']"
    by (simp_all add: helpRequested_def)
  have fb: "parseFlags [js ''--output'', js ''f.age'', js ''--stdout'']
      (initial_options (js ''Hello'') (Fin 100)) =
      ([], Inr \<lparr>text_opt = js ''Hello'', round_opt = Fin 100, output_opt = Some (js ''f.age''),
                testnet = False, verbose = False, stdout = True, quiet = False\<rparr>)"
    and fq: "parseFlags [js ''--quiet''] (initial_options (js ''Hello'') (Fin 100)) =
      ([], Inr \<lparr>text_opt = js ''Hello'', round_opt = Fin 100, output_opt = None,
                testnet = False, verbose = False, stdout = False, quiet = True\<rparr>)"
    by simp_all
  have 1: "\<exists>t. main ?env ?both = (t, Exited 1) \<and> network_calls t = [] \<and> file_writes t = []"
    using parsed_options_invariants [where argv = "?both" and env = "?env"
        and t' = "[]" and opts' = "\<lparr>text_opt = js ''Hello'', round_opt = Fin 100,
          output_opt = Some (js ''f.age''), testnet = False, verbose = False, stdout = True,
          quiet = False\<rparr>"] h(1) fb
    unfolding b by (simp add: parseInt_100 truthy_def)
  have 2: "\<exists>t. main ?env ?quiet = (t, Exited 1) \<and> network_calls t = [] \<and> file_writes t = []"
    using parsed_options_invariants [where argv = "?quiet" and env = "?env"
        and t' = "[]" and opts' = "\<lparr>text_opt = js ''Hello'', round_opt = Fin 100,
          output_opt = None, testnet = False, verbose = False, stdout = False,
          quiet = True\<rparr>"] h(2) fq
    unfolding q by (simp add: parseInt_100)
  have 3: "\<not> truthy (output_opt \<lparr>text_opt = js ''Hello'', round_opt = Fin 100, output_opt = Some [],
               testnet = False, verbose = False, stdout = True, quiet = False\<rparr>)"
    using parsed_options_invariants [where argv = "cli [''Hello'', ''100'', ''--stdout'', ''--output'', '''']"
        and t = "[]" and opts = "\<lparr>text_opt = js ''Hello'', round_opt = Fin 100, output_opt = Some [],
               testnet = False, verbose = False, stdout = True, quiet = False\<rparr>"]
      parse_stdout_empty_output
    by simp
  from 1 2 3 show ?thesis by blast
qed

subsection \<open>Failure of the encryption primitive\<close>

lemma runScript_failure:
  assumes "parseArgs argv = (t, Inr opts)"
    and "timelockEncrypt env (round_opt opts) (Utf8 (text_opt opts)) (clientOf opts) = Inl e"
  shows "runScript env argv =
    (banner opts @ announce env opts @
     [EncryptCall (round_opt opts) (Utf8 (text_opt opts)) (clientOf opts)] @
     reportFailure env opts e @
     [StderrWrite (uncaughtReport env (ReferenceError (js ''options is not defined'')))], 1)"
  unfolding runScript_def main_parsed [OF assms(1)] encryptText_failure [OF assms(2)]
  by simp

text \<open>
  C5, as the code has it. For every invocation whose parse returns options and whose
  encryption call fails: the process ends with status 1 and \<open>fs.writeFileSync\<close> is
  never called. Unless \<open>quiet\<close> is set, the failure is printed on standard error with
  its message, followed under \<open>verbose\<close> by the full error. When \<open>quiet\<close> is set the
  program prints nothing about the failure: all that reaches standard error is the
  runtime's report of the \<open>ReferenceError\<close> that ends the run, which is the same for
  every failure and comes last in every case.
\<close>

theorem encryption_failure_report:
  assumes "parseArgs argv = (t, Inr opts)"
    and "timelockEncrypt env (round_opt opts) (Utf8 (text_opt opts)) (clientOf opts) = Inl e"
  shows "snd (runScript env argv) = 1 \<and>
    file_writes (fst (runScript env argv)) = [] \<and>
    stderr_writes (fst (runScript env argv)) =
      (if quiet opts then []
       else line (CROSS_MARK @ js '' Encryption failed:'' @ js '' '' @ message e) #
            (if verbose opts then [line (js ''Full error:'' @ js '' '' @ inspect env e)] else [])) @
      [uncaughtReport env (ReferenceError (js ''options is not defined''))]"
  unfolding runScript_failure [OF assms]
  by (simp add: reportFailure_def)

lemma parse_hello_verbose_file:
  "parseArgs (cli [''Hello'', ''100'', ''--verbose'']) =
     ([], Inr \<lparr>text_opt = js ''Hello'', round_opt = Fin 100, output_opt = None, testnet = False,
               verbose = True, stdout = False, quiet = False\<rparr>)"
  using parseInt_100 not_blank_Hello
  by (simp add: cli_def parseArgs_positionals helpRequested_def isNaN_def truthy_def)

theorem encryption_failure_report_witness:
  "snd (runScript (mockEnv (Inr quicknetInfo) (Inl (Error (js ''network unreachable''))))
       (cli [''Hello'', ''100'', ''--verbose''])) = 1 \<and>
   file_writes (fst (runScript (mockEnv (Inr quicknetInfo) (Inl (Error (js ''network unreachable''))))
       (cli [''Hello'', ''100'', ''--verbose'']))) = [] \<and>
   stderr_writes (fst (runScript (mockEnv (Inr quicknetInfo) (Inl (Error (js ''network unreachable''))))
       (cli [''Hello'', ''100'', ''--verbose'']))) =
     [line (CROSS_MARK @ js '' Encryption failed:'' @ js '' '' @ js ''network unreachable''),
      line (js ''Full error:'' @ js '' '' @ js ''Error: network unreachable''),
      line (js ''Uncaught: options is not defined'')]"
proof -
  have "js ''Error: '' @ js ''network unreachable'' = js ''Error: network unreachable''"
    "js ''Uncaught: '' @ js ''options is not defined'' = js ''Uncaught: options is not defined''"
    by (simp_all add: js_def)
  with encryption_failure_report [OF parse_hello_verbose_file,
      of "mockEnv (Inr quicknetInfo) (Inl (Error (js ''network unreachable'')))"
         "Error (js ''network unreachable'')"]
  show ?thesis by (simp add: mockEnv_def line_def)
qed

text \<open>
  The claim as stated fails under \<open>--stdout --quiet\<close>: the process ends with status 1,
  but the failure and its message are reported nowhere. Standard output stays empty and
  the one line on standard error is the runtime's, about \<open>options\<close>.
\<close>

theorem encryption_failure_quiet_counterexample:
  "runScript (mockEnv (Inr quicknetInfo) (Inl (Error (js ''network unreachable''))))
       (cli [''Hello'', ''100'', ''--stdout'', ''--quiet'']) =
     ([EncryptCall (Fin 100) (Utf8 (js ''Hello'')) Mainnet,
       StderrWrite (js ''Uncaught: options is not defined'' @ newline)], 1)"
proof -
  have "js ''Uncaught: '' @ js ''options is not defined'' = js ''Uncaught: options is not defined''"
    by (simp add: js_def)
  then show ?thesis
    unfolding runScript_def main_parsed [OF parse_hello_quiet]
    by (simp add: encryptText_failure mockEnv_def clientOf_def catchBlock_def)
qed

subsection \<open>Decimal digits\<close>

lemma below_10_cases:
  assumes "d < (10::nat)"
  shows "d \<in> {0, 1, 2, 3, 4, 5, 6, 7, 8, 9}"
  using assms by auto

lemma digit_unit:
  assumes "d < (10::nat)"
  shows "(of_nat (0x30 + d) :: 16 word) \<in> decimalDigits"
    and "digitValue (of_nat (0x30 + d)) = Some d"
    and "(of_nat (0x30 + d) :: 16 word) = 0x30 \<longleftrightarrow> d = 0"
  using below_10_cases [OF assms]
  by (auto simp: decimalDigits_def digitValue_def)

lemma decimalDigits_props:
  assumes "c \<in> decimalDigits"
  shows "\<not> isWhiteSpace c" "radixDigit 10 c" "c \<noteq> 0x2D" "c \<noteq> 0x2B" "c \<noteq> 0x78" "c \<noteq> 0x58"
    "0x30 \<le> c \<and> c \<le> 0x39"
  using assms
  by (auto simp: decimalDigits_def isWhiteSpace_def radixDigit_def digitValue_def)

lemma digits_decimal: "set (digits n) \<subseteq> decimalDigits"
proof (induction n rule: digits.induct)
  case (1 n)
  show ?case
  proof (cases "n < 10")
    case True
    then show ?thesis using digit_unit(1) [of n] by (simp add: digits.simps [of n])
  next
    case False
    have "n mod 10 < 10" by simp
    from digit_unit(1) [OF this] "1.IH" [OF False] False
    show ?thesis by (simp add: digits.simps [of n])
  qed
qed

lemma digits_not_Nil: "digits n \<noteq> []"
  by (simp add: digits.simps [of n])

lemma mathInt_snoc:
  "mathInt R (Z @ [c]) = mathInt R Z * R + (case digitValue c of Some d \<Rightarrow> d | None \<Rightarrow> 0)"
  by (simp add: mathInt_def)

lemma mathInt_digits: "mathInt 10 (digits n) = n"
proof (induction n rule: digits.induct)
  case (1 n)
  show ?case
  proof (cases "n < 10")
    case True
    then show ?thesis
      using digit_unit(2) [of n] by (simp add: digits.simps [of n] mathInt_def)
  next
    case False
    have "n mod 10 < 10" by simp
    from digit_unit(2) [OF this] "1.IH" [OF False] False
    show ?thesis by (simp add: digits.simps [of n] mathInt_snoc)
  qed
qed

lemma hd_digits: "0 < n \<Longrightarrow> hd (digits n) \<noteq> 0x30"
proof (induction n rule: digits.induct)
  case (1 n)
  show ?case
  proof (cases "n < 10")
    case True
    with "1.prems" show ?thesis
      using digit_unit(3) [of n] by (simp add: digits.simps [of n])
  next
    case False
    then have "0 < n div 10" by simp
    from "1.IH" [OF False this] False digits_not_Nil [of "n div 10"]
    show ?thesis by (simp add: digits.simps [of n])
  qed
qed

text \<open>Reading back what \<open>digits\<close> wrote.\<close>

lemma parseInt_digits: "parseInt (digits n) = toNumber (int n)"
proof -
  let ?s = "digits n"
  have ne: "?s \<noteq> []" by (rule digits_not_Nil)
  then have hd: "hd ?s \<in> decimalDigits"
    using digits_decimal [of n] hd_in_set by blast
  have ws: "dropWhile isWhiteSpace ?s = ?s"
    using ne decimalDigits_props(1) [OF hd] by (cases ?s) simp_all
  have sign: "hd ?s \<noteq> 0x2D" "hd ?s \<noteq> 0x2B"
    using decimalDigits_props(3,4) [OF hd] by simp_all
  have nohex: "take 2 ?s \<noteq> js ''0x''" "take 2 ?s \<noteq> js ''0X''"
  proof -
    have sub: "set (take 2 ?s) \<subseteq> decimalDigits"
      using set_take_subset digits_decimal by fast
    have "0x78 \<notin> decimalDigits" "0x58 \<notin> decimalDigits"
      by (simp_all add: decimalDigits_def)
    moreover have "0x78 \<in> set (js ''0x'')" "0x58 \<in> set (js ''0X'')"
      by (simp_all add: js_def)
    ultimately show "take 2 ?s \<noteq> js ''0x''" "take 2 ?s \<noteq> js ''0X''"
      using sub by auto
  qed
  have all: "takeWhile (radixDigit 10) ?s = ?s"
    using digits_decimal [of n] decimalDigits_props(2) by (auto intro: takeWhile_eq_all_conv [THEN iffD2])
  have "parseInt ?s =
      (if takeWhile (radixDigit 10) ?s = [] then NaN
       else toNumber (int (mathInt 10 (takeWhile (radixDigit 10) ?s))))"
    unfolding parseInt_def Let_def ws
    using ne sign nohex by simp
  then show ?thesis
    unfolding all using ne by (simp add: mathInt_digits)
qed

lemma toNumber_small:
  assumes "\<bar>i\<bar> < 2 ^ 53"
  shows "toNumber i = Fin (of_int i)"
proof -
  from assms have "nat \<bar>i\<bar> < 2 ^ 53" by (simp add: nat_less_iff)
  then show ?thesis by (simp only: toNumber_def Let_def if_True)
qed

subsection \<open>The generated file name\<close>

lemma timestamp_no_colon_period:
  "0x3A \<notin> set (timestamp s)" "0x2E \<notin> set (timestamp s)"
proof -
  let ?m = "map (\<lambda>c. if c = 0x3A \<or> c = 0x2E then 0x2D else c :: 16 word) s"
  have "0x3A \<notin> set ?m" "0x2E \<notin> set ?m" by auto
  moreover have "set (timestamp s) \<subseteq> set ?m"
    unfolding timestamp_def Let_def by (rule set_take_subset)
  ultimately show "0x3A \<notin> set (timestamp s)" "0x2E \<notin> set (timestamp s)" by blast+
qed

lemma timestamp_nth:
  "length (timestamp s) = length s - 5"
  "i < length s - 5 \<Longrightarrow>
     timestamp s ! i = (if s ! i = 0x3A \<or> s ! i = 0x2E then 0x2D else s ! i)"
  by (simp_all add: timestamp_def Let_def)

text \<open>The round of a returned options object: the number \<open>parseInt\<close> read from the
  second argument, an integer from 1 on, or \<open>Infinity\<close>.\<close>

lemma parsed_round:
  assumes "parseArgs argv = (t, Inr opts)"
  shows "round_opt opts = parseInt (drop 2 argv ! 1)"
    and "round_opt opts = PosInf \<or> (\<exists>n::int. 1 \<le> n \<and> round_opt opts = Fin (of_int n))"
proof -
  from parseFlags_round [OF parseArgs_returns(7) [OF assms]]
  show r: "round_opt opts = parseInt (drop 2 argv ! 1)" by simp
  note ok = parseArgs_returns(5,6) [OF assms, folded r]
  from parseInt_accepted [OF parseArgs_returns(5,6) [OF assms]] r
  have "isInteger (round_opt opts) \<or> round_opt opts = PosInf" by simp
  then show "round_opt opts = PosInf \<or> (\<exists>n::int. 1 \<le> n \<and> round_opt opts = Fin (of_int n))"
  proof
    assume "isInteger (round_opt opts)"
    then obtain n :: int where n: "round_opt opts = Fin (of_int n)"
      using isInteger_iff by blast
    with ok(2) have "1 \<le> n" by simp
    with n show ?thesis by blast
  qed simp
qed

lemma numberToString_safe:
  assumes "0 \<le> n" "n < 2 ^ 53"
  shows "numberToString env (Fin (of_int n)) = digits (nat n)"
proof -
  have "\<bar>rat_of_int n\<bar> < 2 ^ 53"
    using assms by (simp add: abs_if)
  moreover have "\<not> rat_of_int n < 0" using assms(1) by simp
  ultimately show ?thesis
    by (simp add: numberToString_def)
qed

text \<open>
  C8. For every invocation whose parse returns options without an output path and
  without \<open>stdout\<close>, and whose encryption succeeds, \<open>fs.writeFileSync\<close> is called
  exactly once; the content is the artifact, and the file name is \<open>encrypted-\<close>, the
  network (\<open>testnet\<close> under \<open>--testnet\<close>, else \<open>mainnet\<close>), \<open>-round-\<close>, the round as
  \<open>Number::toString\<close> prints it, \<open>-\<close>, the timestamp and \<open>.age\<close>. The round is the
  number read from the second argument; when it is below \<open>2^53\<close>, what stands for it in
  the name is its decimal numeral: decimal digits only, no leading zero, and reading
  back as the round. The timestamp is the clock's ISO string with its last five code units
  cut off and every colon and period replaced by a hyphen, so it holds neither character.
\<close>

theorem generated_file_name:
  assumes "parseArgs argv = (t, Inr opts)" "\<not> truthy (output_opt opts)" "\<not> stdout opts"
    and "timelockEncrypt env (round_opt opts) (Utf8 (text_opt opts)) (clientOf opts) = Inr artifact"
  shows "file_writes (fst (main env argv)) =
      [(js ''encrypted-'' @ (if testnet opts then js ''testnet'' else js ''mainnet'') @
        js ''-round-'' @ numberToString env (round_opt opts) @ js ''-'' @
        timestamp (toISOString_now env) @ js ''.age'', artifact)] \<and>
    round_opt opts = parseInt (drop 2 argv ! 1) \<and>
    (num_lt (round_opt opts) (Fin (2 ^ 53)) \<longrightarrow>
       set (numberToString env (round_opt opts)) \<subseteq> decimalDigits \<and>
       hd (numberToString env (round_opt opts)) \<noteq> 0x30 \<and>
       parseInt (numberToString env (round_opt opts)) = round_opt opts) \<and>
    0x3A \<notin> set (timestamp (toISOString_now env)) \<and>
    0x2E \<notin> set (timestamp (toISOString_now env)) \<and>
    length (timestamp (toISOString_now env)) = length (toISOString_now env) - 5 \<and>
    (\<forall>i < length (toISOString_now env) - 5.
       timestamp (toISOString_now env) ! i =
         (if toISOString_now env ! i = 0x3A \<or> toISOString_now env ! i = 0x2E then 0x2D
          else toISOString_now env ! i))"
proof -
  have name: "orElse (output_opt opts) (generatedFilename env opts) =
      js ''encrypted-'' @ (if testnet opts then js ''testnet'' else js ''mainnet'') @
        js ''-round-'' @ numberToString env (round_opt opts) @ js ''-'' @
        timestamp (toISOString_now env) @ js ''.age''"
    using assms(2)
    by (auto simp: orElse_def truthy_def generatedFilename_def Let_def split: option.splits)
  have writes: "file_writes (fst (main env argv)) =
      [(orElse (output_opt opts) (generatedFilename env opts), artifact)]"
    unfolding main_parsed [OF assms(1)] encryptText_file [OF assms(4,3)]
    by (simp split: option.splits)
  have numeral: "set (numberToString env (round_opt opts)) \<subseteq> decimalDigits \<and>
       hd (numberToString env (round_opt opts)) \<noteq> 0x30 \<and>
       parseInt (numberToString env (round_opt opts)) = round_opt opts"
    if small: "num_lt (round_opt opts) (Fin (2 ^ 53))"
  proof -
    from parsed_round(2) [OF assms(1)] small
    obtain n :: int where n: "1 \<le> n" "round_opt opts = Fin (of_int n)" by auto
    with small have lt: "n < 2 ^ 53" by simp
    from n(1) lt have str: "numberToString env (Fin (of_int n)) = digits (nat n)"
      by (intro numberToString_safe) simp_all
    from n(1) lt have "\<bar>int (nat n)\<bar> < 2 ^ 53" by simp
    from toNumber_small [OF this] n(1)
    have "parseInt (digits (nat n)) = Fin (of_int n)"
      by (simp add: parseInt_digits)
    moreover from n(1) have "hd (digits (nat n)) \<noteq> 0x30"
      by (intro hd_digits) simp
    ultimately show ?thesis
      unfolding n(2) str using digits_decimal by simp
  qed
  from name writes numeral parsed_round(1) [OF assms(1)]
    timestamp_no_colon_period timestamp_nth
  show ?thesis by simp
qed

lemma parse_hello:
  "parseArgs (cli [''Hello'', ''100'']) =
     ([], Inr \<lparr>text_opt = js ''Hello'', round_opt = Fin 100, output_opt = None, testnet = False,
               verbose = False, stdout = False, quiet = False\<rparr>)"
  using parseInt_100 not_blank_Hello
  by (simp add: cli_def parseArgs_positionals helpRequested_def isNaN_def truthy_def)

lemma parseInt_11645812: "parseInt (js ''11645812'') = Fin 11645812"
  by (simp add: eval_parseInt)

lemma parse_hello_testnet:
  "parseArgs (cli [''Hello'', ''11645812'', ''--testnet'']) =
     ([], Inr \<lparr>text_opt = js ''Hello'', round_opt = Fin 11645812, output_opt = None,
               testnet = True, verbose = False, stdout = False, quiet = False\<rparr>)"
  using parseInt_11645812 not_blank_Hello
  by (simp add: cli_def parseArgs_positionals helpRequested_def isNaN_def truthy_def)

lemma numberToString_11645812: "numberToString env (Fin 11645812) = js ''11645812''"
  by (simp add: numberToString_def digits.simps js_def)

lemma timestamp_example:
  "timestamp (js ''2025-01-02T03:04:05.678Z'') = js ''2025-01-02T03-04-05''"
  by (simp add: timestamp_def js_def)

theorem generated_file_name_witness:
  "file_writes (fst (main (mockEnv (Inr quicknetInfo) (Inr (js ''age-encryption.org/v1'')))
       (cli [''Hello'', ''100'']))) =
     [(js ''encrypted-mainnet-round-100-2025-01-02T03-04-05.age'', js ''age-encryption.org/v1'')] \<and>
   file_writes (fst (main (mockEnv (Inr quicknetInfo) (Inr (js ''age-encryption.org/v1'')))
       (cli [''Hello'', ''11645812'', ''--testnet'']))) =
     [(js ''encrypted-testnet-round-11645812-2025-01-02T03-04-05.age'', js ''age-encryption.org/v1'')] \<and>
   parseInt (js ''11645812'') = Fin 11645812 \<and> set (js ''11645812'') \<subseteq> decimalDigits"
proof -
  let ?env = "mockEnv (Inr quicknetInfo) (Inr (js ''age-encryption.org/v1''))"
  have cat: "js ''encrypted-'' @ js ''mainnet'' @ js ''-round-'' @ js ''100'' @ js ''-'' @
      js ''2025-01-02T03-04-05'' @ js ''.age'' = js ''encrypted-mainnet-round-100-2025-01-02T03-04-05.age''"
    "js ''encrypted-'' @ js ''testnet'' @ js ''-round-'' @ js ''11645812'' @ js ''-'' @
      js ''2025-01-02T03-04-05'' @ js ''.age'' =
      js ''encrypted-testnet-round-11645812-2025-01-02T03-04-05.age''"
    by (simp_all add: js_def)
  have 1: "file_writes (fst (main ?env (cli [''Hello'', ''100'']))) =
     [(js ''encrypted-mainnet-round-100-2025-01-02T03-04-05.age'', js ''age-encryption.org/v1'')]"
    using generated_file_name [OF parse_hello, of ?env "js ''age-encryption.org/v1''"] cat(1)
    by (simp add: mockEnv_def truthy_def numberToString_100 timestamp_example)
  have 2: "file_writes (fst (main ?env (cli [''Hello'', ''11645812'', ''--testnet'']))) =
     [(js ''encrypted-testnet-round-11645812-2025-01-02T03-04-05.age'', js ''age-encryption.org/v1'')] \<and>
     parseInt (js ''11645812'') = Fin 11645812 \<and> set (js ''11645812'') \<subseteq> decimalDigits"
    using generated_file_name [OF parse_hello_testnet, of ?env "js ''age-encryption.org/v1''"] cat(2)
    by (simp add: mockEnv_def truthy_def numberToString_11645812 timestamp_example)
  from 1 2 show ?thesis by blast
qed

end
